theory Spec2Isabelle
  imports Complex_Main "HOL-Library.Multiset"
begin

section \<open>JavaScript values of the dashboard\<close>

text \<open>
  A JavaScript \<open>number\<close> is either a finite value or one of the three special values.
  Finite values are kept as reals: IEEE-754 rounding is abstracted, the special values
  are not, because the guards of the code (\<open>Number.isNaN\<close>, \<open>typeof\<close>) tell them apart.
\<close>

datatype number = Fin real | PosInfinity | NegInfinity | NaN

definition isNaN :: "number \<Rightarrow> bool" where
  "isNaN n = (n = NaN)"

fun isFinite :: "number \<Rightarrow> bool" where
  "isFinite (Fin x) = True"
| "isFinite PosInfinity = False"
| "isFinite NegInfinity = False"
| "isFinite NaN = False"










text \<open>
  A cell of a result row is a scalar (spec, section 3). A result row is the list of its
  own properties in enumeration order, which is the order \<open>Object.keys\<close> returns;
  reading a missing property gives \<open>undefined\<close>, here \<open>None\<close>.
\<close>

datatype scalar = JNull | JBool bool | JNum number | JStr string

type_synonym row = "(string \<times> scalar) list"

definition get :: "row \<Rightarrow> string \<Rightarrow> scalar option" where
  "get r k = map_of r k"

definition Object_keys :: "row \<Rightarrow> string list" where
  "Object_keys r = map fst r"

text \<open>
  Arrays are objects with identity: a heap is the list of the arrays allocated so far and
  a reference is an index into it. The spread \<open>[...xs]\<close> allocates a copy,
  \<open>Array.prototype.sort\<close> writes into the array it is called on.
\<close>

type_synonym 'a heap = "'a list list"
type_synonym ref = nat

definition alloc :: "'a heap \<Rightarrow> 'a list \<Rightarrow> 'a heap \<times> ref" where
  "alloc h xs = (h @ [xs], length h)"

definition spread :: "'a heap \<Rightarrow> ref \<Rightarrow> 'a heap \<times> ref" where
  "spread h a = alloc h (h ! a)"




section \<open>Descriptive statistics (DataVisualization)\<close>

record stats =
  mean :: number
  median :: number
  min_stat :: number
  max_stat :: number
  stddev :: number
  count :: nat


fun somes :: "'a option list \<Rightarrow> 'a list" where
  \<comment> \<open>\<open>.filter((value) => value !== null)\<close> on an array of \<open>number | null\<close>\<close>
  "somes [] = []"
| "somes (None # xs) = somes xs"
| "somes (Some x # xs) = x # somes xs"

fun typeof :: "scalar option \<Rightarrow> string" where
  "typeof None = ''undefined''"
| "typeof (Some JNull) = ''object''"
| "typeof (Some (JBool b)) = ''boolean''"
| "typeof (Some (JNum n)) = ''number''"
| "typeof (Some (JStr s)) = ''string''"

fun Number_isNaN :: "scalar option \<Rightarrow> bool" where
  "Number_isNaN (Some (JNum n)) = isNaN n"
| "Number_isNaN v = False"

fun number_of :: "scalar option \<Rightarrow> number option" where
  \<comment> \<open>the cast \<open>value as number\<close>, defined on the values it is applied to\<close>
  "number_of (Some (JNum n)) = Some n"
| "number_of v = None"

definition extractNumericValues :: "row list \<Rightarrow> string \<Rightarrow> number list" where
  "extractNumericValues rows key =
     somes (map (\<lambda>row. if typeof (get row key) = ''number'' \<and> \<not> Number_isNaN (get row key)
                       then number_of (get row key) else None) rows)"

section \<open>Strings and built-ins\<close>

text \<open>
  A string produced by \<open>Date.prototype.toISOString\<close> is kept as the instant it renders,
  in milliseconds since the epoch.
\<close>

datatype date_string = ISO int

definition digit_char :: "nat \<Rightarrow> char" where
  "digit_char d = ''0123456789'' ! d"

fun show_nat :: "nat \<Rightarrow> string" where
  \<comment> \<open>the decimal rendering of an array length in a template literal\<close>
  "show_nat n = (if n < 10 then [digit_char n]
                 else show_nat (n div 10) @ [digit_char (n mod 10)])"

declare show_nat.simps [simp del]

fun join :: "string \<Rightarrow> string list \<Rightarrow> string" where
  "join sep [] = []"
| "join sep [x] = x"
| "join sep (x # y # ys) = x @ sep @ join sep (y # ys)"

definition isSpace :: "char \<Rightarrow> bool" where
  \<comment> \<open>the ASCII white space and line terminators that \<open>trim\<close> removes\<close>
  "isSpace c = (c \<in> set [CHR 0x20, CHR 0x09, CHR 0x0A, CHR 0x0B, CHR 0x0C, CHR 0x0D])"

definition trim :: "string \<Rightarrow> string" where
  "trim s = rev (dropWhile isSpace (rev (dropWhile isSpace s)))"

text \<open>
  Built-ins of the platform whose result depends on the locale, on the number formatting
  algorithm or on date parsing are parameters of the model: \<open>String(x)\<close> for a finite
  number, \<open>n.toLocaleString()\<close> for a count, \<open>new Date(v).getTime()\<close> (\<open>None\<close> for an
  invalid date) and \<open>toLocaleDateString\<close>.
\<close>

record builtins =
  number_toString :: "real \<Rightarrow> string"
  count_toLocaleString :: "nat \<Rightarrow> string"
  Date_getTime :: "scalar \<Rightarrow> int option"
  toLocaleDateString :: "int \<Rightarrow> string"

fun String_of :: "builtins \<Rightarrow> scalar option \<Rightarrow> string" where
  "String_of b None = ''undefined''"
| "String_of b (Some JNull) = ''null''"
| "String_of b (Some (JBool v)) = (if v then ''true'' else ''false'')"
| "String_of b (Some (JNum (Fin x))) = number_toString b x"
| "String_of b (Some (JNum PosInfinity)) = ''Infinity''"
| "String_of b (Some (JNum NegInfinity)) = ''-Infinity''"
| "String_of b (Some (JNum NaN)) = ''NaN''"
| "String_of b (Some (JStr s)) = s"

fun truthy :: "scalar option \<Rightarrow> bool" where
  "truthy None = False"
| "truthy (Some JNull) = False"
| "truthy (Some (JBool v)) = v"
| "truthy (Some (JNum n)) = (n \<noteq> NaN \<and> n \<noteq> Fin 0)"
| "truthy (Some (JStr s)) = (s \<noteq> [])"

fun nullish :: "scalar option \<Rightarrow> bool" where
  "nullish None = True"
| "nullish (Some JNull) = True"
| "nullish v = False"

definition coalesce :: "scalar option \<Rightarrow> scalar option \<Rightarrow> scalar option" where
  \<comment> \<open>\<open>a ?? b\<close>\<close>
  "coalesce a b = (if nullish a then b else a)"

fun js_less :: "number \<Rightarrow> number \<Rightarrow> bool" where
  \<comment> \<open>\<open>a < b\<close> on numbers\<close>
  "js_less NaN b = False"
| "js_less a NaN = False"
| "js_less (Fin x) (Fin y) = (x < y)"
| "js_less a NegInfinity = False"
| "js_less NegInfinity b = True"
| "js_less PosInfinity b = False"
| "js_less (Fin x) PosInfinity = True"

definition Array_from_Set :: "'a list \<Rightarrow> 'a list" where
  \<comment> \<open>\<open>Array.from(new Set(xs))\<close>: each value once, in order of first occurrence\<close>
  "Array_from_Set xs = foldl (\<lambda>seen x. if x \<in> set seen then seen else seen @ [x]) [] xs"

section \<open>Client-side filter pipeline (DataVisualization)\<close>

datatype PersonaMode = Guided | Expert

datatype FocusMetric = Temperature | Salinity | Pressure | Oxygen | Density

record ExpertFilters =
  focusMetric :: FocusMetric
  floatId :: "string option"
  depthRange :: "(number option \<times> number option) option"

definition depth_in_range :: "number option \<Rightarrow> number option \<Rightarrow> row \<Rightarrow> bool" where
  "depth_in_range minDepth maxDepth row =
     (let depth = get row ''pressure'' in
      if typeof depth \<noteq> ''number'' \<or> Number_isNaN depth then False
      else case number_of depth of
             None \<Rightarrow> False
           | Some d \<Rightarrow>
               if (case minDepth of None \<Rightarrow> False | Some lo \<Rightarrow> js_less d lo) then False
               else if (case maxDepth of None \<Rightarrow> False | Some hi \<Rightarrow> js_less hi d) then False
               else True)"

definition filteredData ::
  "builtins \<Rightarrow> row heap \<Rightarrow> ref \<Rightarrow> PersonaMode \<Rightarrow> ExpertFilters \<Rightarrow> row heap \<times> ref" where
  "filteredData b h data mode filters =
     (if mode \<noteq> Expert then (h, data)
      else
        let (h1, next1) = spread h data;
            (h2, next2) =
              (case floatId filters of
                 None \<Rightarrow> (h1, next1)
               | Some fid \<Rightarrow>
                   if fid = [] then (h1, next1)
                   else alloc h1 (filter (\<lambda>row. String_of b (get row ''float_id'') = fid)
                                         (h1 ! next1)));
            (h3, next3) =
              (case depthRange filters of
                 None \<Rightarrow> (h2, next2)
               | Some (minDepth, maxDepth) \<Rightarrow>
                   if minDepth \<noteq> None
                   then alloc h2 (filter (depth_in_range minDepth maxDepth) (h2 ! next2))
                   else (h2, next2))
        in (h3, next3))"

section \<open>Data synopsis (App)\<close>

record DataSynopsis =
  signature :: string
  headline :: string
  highlights :: "string list"
  columns :: "string list"
  sampleFloat :: "string option"
  dateWindow :: "date_string option \<times> date_string option"

definition normalize_float_id :: "builtins \<Rightarrow> row \<Rightarrow> string option" where
  "normalize_float_id b row =
     (let raw = coalesce (coalesce (get row ''float_id'') (get row ''float'')) (get row ''id'') in
      if nullish raw then None
      else case raw of
             Some (JStr s) \<Rightarrow> (let trimmed = trim s in if trimmed \<noteq> [] then Some trimmed else None)
           | _ \<Rightarrow> Some (String_of b raw))"

definition float_ids :: "builtins \<Rightarrow> row list \<Rightarrow> string list" where
  "float_ids b data =
     Array_from_Set (somes (filter (\<lambda>v. v \<noteq> None \<and> v \<noteq> Some [])
                                   (map (normalize_float_id b) data)))"

definition dateCandidates :: "string list" where
  "dateCandidates = [''profile_date'', ''observation_date'', ''date'', ''time'']"

definition parseDate :: "builtins \<Rightarrow> scalar option \<Rightarrow> int option" where
  "parseDate b v = (if \<not> truthy v then None else case v of None \<Rightarrow> None | Some x \<Rightarrow> Date_getTime b x)"

definition track_date ::
  "builtins \<Rightarrow> row \<Rightarrow> int option \<times> int option \<Rightarrow> string \<Rightarrow> int option \<times> int option" where
  "track_date b row window key =
     (if truthy (get row key) then
        (case parseDate b (get row key) of
           None \<Rightarrow> window
         | Some parsed \<Rightarrow>
             (let earliest = (case fst window of None \<Rightarrow> Some parsed
                              | Some e \<Rightarrow> if parsed < e then Some parsed else Some e);
                  latest = (case snd window of None \<Rightarrow> Some parsed
                            | Some l \<Rightarrow> if parsed > l then Some parsed else Some l)
              in (earliest, latest)))
      else window)"

definition date_window :: "builtins \<Rightarrow> row list \<Rightarrow> int option \<times> int option" where
  "date_window b data =
     foldl (\<lambda>window row. foldl (track_date b row) window dateCandidates) (None, None) data"

definition format_date :: "builtins \<Rightarrow> int option \<Rightarrow> string" where
  \<comment> \<open>\<open>format(date) || "n/a"\<close>\<close>
  "format_date b d =
     (case d of None \<Rightarrow> ''n/a''
      | Some t \<Rightarrow> if toLocaleDateString b t = [] then ''n/a'' else toLocaleDateString b t)"

definition arrow :: string where
  "arrow = [CHR 0xE2, CHR 0x86, CHR 0x92]"

definition ellipsis :: string where
  "ellipsis = [CHR 0xE2, CHR 0x80, CHR 0xA6]"

definition createDataSynopsis :: "builtins \<Rightarrow> row list \<Rightarrow> DataSynopsis option" where
  "createDataSynopsis b data =
     (if length data = 0 then None
      else
        let columns = Object_keys (data ! 0);
            floatIds = float_ids b data;
            (earliest, latest) = date_window b data;
            headline = count_toLocaleString b (length data) @ '' records across '' @
                       (if length floatIds \<noteq> 0 then show_nat (length floatIds) else ''several'') @
                       '' floats'';
            h1 = (if length floatIds \<noteq> 0
                  then [''Sample float: '' @ join '', '' (take 1 floatIds)] else []);
            h2 = (if earliest \<noteq> None \<or> latest \<noteq> None
                  then [''Date window: '' @ format_date b earliest @ '' '' @ arrow @ '' '' @
                        format_date b latest]
                  else []);
            numericColumns =
              filter (\<lambda>column. list_ex (\<lambda>row. typeof (get row column) = ''number'' \<and>
                                               \<not> Number_isNaN (get row column)) data) columns;
            h3 = (if length numericColumns \<noteq> 0
                  then [''Numeric fields detected: '' @ join '', '' (take 3 numericColumns) @
                        (if length numericColumns > 3 then ellipsis else [])]
                  else [])
        in Some \<lparr>signature = show_nat (length data) @ ''-'' @ join ''|'' columns @ ''-'' @
                              show_nat (length floatIds),
                  headline = headline,
                  highlights = h1 @ h2 @ h3,
                  columns = columns,
                  sampleFloat = (case floatIds of [] \<Rightarrow> None | f # _ \<Rightarrow> Some f),
                  dateWindow = (map_option ISO earliest, map_option ISO latest)\<rparr>)"

section \<open>Fetch client (services/api.ts)\<close>

text \<open>
  What a \<open>try\<close> block can throw. The outcome of the one \<open>fetch\<close> a resource method
  issues is either a rejected promise (the network failed) or a response with a status and
  a body; \<open>response.json()\<close> on the body yields the payload or rejects. The cast
  \<open>as T\<close> checks nothing, so a parsed payload is taken at the declared type.
\<close>

datatype exn = TypeError | HttpError nat | SyntaxError | RangeError

datatype 'a fetch_result = NetworkFailure | HttpResponse nat "'a option"

definition response_ok :: "nat \<Rightarrow> bool" where
  "response_ok status = (200 \<le> status \<and> status \<le> 299)"

fun fetchJson :: "'a fetch_result \<Rightarrow> exn + 'a" where
  "fetchJson NetworkFailure = Inl TypeError"
| "fetchJson (HttpResponse status body) =
     (if \<not> response_ok status then Inl (HttpError status)
      else case body of None \<Rightarrow> Inl SyntaxError | Some payload \<Rightarrow> Inr payload)"

definition try_catch :: "exn + 'a \<Rightarrow> (exn \<Rightarrow> exn + 'a) \<Rightarrow> exn + 'a" where
  "try_catch body handler = (case body of Inl error \<Rightarrow> handler error | Inr v \<Rightarrow> Inr v)"

text \<open>
  An instant is a valid date when it lies within 8.64e15 ms of the epoch;
  \<open>toISOString\<close> throws a RangeError on any other.
\<close>

definition valid_time :: "int \<Rightarrow> bool" where
  "valid_time t = (\<bar>t\<bar> \<le> 8640000000000000)"

definition toISOString :: "int \<Rightarrow> exn + date_string" where
  "toISOString t = (if valid_time t then Inr (ISO t) else Inl RangeError)"

record ArgoFloat =
  af_id :: string
  af_lat :: real
  af_lon :: real
  af_last_contact :: string
  af_temperature :: "real option"
  af_salinity :: "real option"
  af_trajectory :: "(real \<times> real) list option"
  af_status :: string

datatype quality_flag = FlagNum real | FlagStr string

record ArgoProfile =
  depth :: "real list"
  values_of :: "real list"
  quality_flags :: "quality_flag list"
  profile_metadata :: "(string \<times> string) list option"

record TimeSeriesPoint =
  ts_timestamp :: date_string
  ts_temperature :: "real option"
  ts_salinity :: "real option"
  ts_oxygen :: "real option"
  ts_pressure :: "real option"

record TimeSeriesResponse =
  ts_data :: "TimeSeriesPoint list"
  ts_sqlQuery :: "string option"

record DataQualityReport =
  metric :: string
  metric_value :: real
  unit_of :: "string option"
  flag :: "string option"
  description :: "string option"

record TrajectoryPoint =
  tp_lat :: real
  tp_lon :: real
  tp_timestamp :: date_string
  tp_temperature :: "real option"
  tp_salinity :: "real option"
  tp_pressure :: "real option"

record DatabaseStats =
  total_floats :: int
  last_updated :: "string option"
  dataset :: "string option"

datatype DataSource = Live | Sample

record ArgoFloatsResult =
  floats_data :: "ArgoFloat list"
  floats_source :: DataSource

text \<open>The sample fleet of the client that \<open>App\<close> imports (second copy of \<open>api.ts\<close>).\<close>

definition SAMPLE_FLOATS :: "ArgoFloat list" where
  "SAMPLE_FLOATS =
    [\<lparr>af_id = ''5905612'', af_lat = -33.5, af_lon = 151.3,
      af_last_contact = ''2025-11-20T12:00:00Z'', af_temperature = Some 15.4,
      af_salinity = Some 35.1,
      af_trajectory = Some [(-33.50, 151.30), (-33.45, 151.32), (-33.40, 151.35)],
      af_status = ''active''\<rparr>,
     \<lparr>af_id = ''5905613'', af_lat = -12.1, af_lon = 145.2,
      af_last_contact = ''2025-11-15T09:00:00Z'', af_temperature = Some 12.9,
      af_salinity = Some 34.7,
      af_trajectory = Some [(-12.10, 145.20), (-12.06, 145.28), (-12.00, 145.35)],
      af_status = ''active''\<rparr>,
     \<lparr>af_id = ''5905614'', af_lat = 2.5, af_lon = -150.8,
      af_last_contact = ''2025-10-05T18:00:00Z'', af_temperature = Some 10.2,
      af_salinity = Some 34.9,
      af_trajectory = Some [(2.50, -150.80), (2.55, -150.70), (2.60, -150.60)],
      af_status = ''delayed''\<rparr>,
     \<lparr>af_id = ''3901774'', af_lat = 46.5, af_lon = -17.8,
      af_last_contact = ''2025-11-10T04:00:00Z'', af_temperature = Some 9.1,
      af_salinity = Some 35.4,
      af_trajectory = Some [(46.45, -17.90), (46.50, -17.80), (46.60, -17.65)],
      af_status = ''active''\<rparr>,
     \<lparr>af_id = ''2902273'', af_lat = 14.2, af_lon = -38.6,
      af_last_contact = ''2025-11-18T07:00:00Z'', af_temperature = Some 20.3,
      af_salinity = Some 36.1,
      af_trajectory = Some [(14.10, -38.70), (14.20, -38.60), (14.25, -38.55)],
      af_status = ''active''\<rparr>,
     \<lparr>af_id = ''3901621'', af_lat = -47.8, af_lon = 12.4,
      af_last_contact = ''2025-09-29T10:00:00Z'', af_temperature = Some 6.4,
      af_salinity = Some 34.6,
      af_trajectory = Some [(-47.90, 12.30), (-47.82, 12.38), (-47.75, 12.50)],
      af_status = ''inactive''\<rparr>]"

text \<open>The sample fleet of \<open>frontend/src/services/api.ts\<close>.\<close>

definition SAMPLE_FLOATS_frontend :: "ArgoFloat list" where
  "SAMPLE_FLOATS_frontend =
    [\<lparr>af_id = ''float_2903953'', af_lat = 40.7128, af_lon = -74.006,
      af_last_contact = ''2024-01-15T00:00:00Z'', af_temperature = Some 18.5,
      af_salinity = Some 35.2, af_trajectory = Some [(40.7, -74.0), (40.8, -73.9)],
      af_status = ''active''\<rparr>,
     \<lparr>af_id = ''float_4903838'', af_lat = 35.6762, af_lon = 139.6503,
      af_last_contact = ''2024-01-14T00:00:00Z'', af_temperature = Some 22.1,
      af_salinity = Some 34.8, af_trajectory = Some [(35.6, 139.7), (35.7, 139.8)],
      af_status = ''active''\<rparr>,
     \<lparr>af_id = ''float_7901125'', af_lat = -33.9249, af_lon = 18.4241,
      af_last_contact = ''2024-01-13T00:00:00Z'', af_temperature = Some 16.3,
      af_salinity = Some 35.0, af_trajectory = Some [(-33.9, 18.4), (-33.8, 18.5)],
      af_status = ''delayed''\<rparr>]"

definition SAMPLE_PROFILE :: ArgoProfile where
  "SAMPLE_PROFILE =
     \<lparr>depth = [0, 200, 500, 1000], values_of = [20.2, 15.1, 8.3, 4.2],
      quality_flags = [FlagNum 1, FlagNum 1, FlagNum 1, FlagNum 2],
      profile_metadata = Some [(''variable'', ''temperature''),
        (''units'', [CHR 0xC3, CHR 0x82, CHR 0xC2, CHR 0xB0, CHR ''C''])]\<rparr>"

text \<open>
  The sample series is built once, when the module loads: twelve weekly points from
  2024-01-01T00:00:00Z (1704067200000 ms). \<open>setDate\<close> counts days in the local time of
  the host: the instant of the point at an index lies that many weeks after the base
  instant, less the amount by which the UTC offset of the host zone at that local date
  exceeds its offset at the base date (an hour once daylight saving time has begun, nothing
  in a zone whose clock does not change). That amount, in ms, is the parameter
  \<open>offset_change\<close>.
\<close>

definition SAMPLE_TIME_SERIES :: "(nat \<Rightarrow> int) \<Rightarrow> TimeSeriesResponse" where
  "SAMPLE_TIME_SERIES offset_change =
     \<lparr>ts_data = map (\<lambda>index.
          \<lparr>ts_timestamp = ISO (1704067200000 + int index * 7 * 86400000 - offset_change index),
           ts_temperature = Some (18 - real index * 0.3),
           ts_salinity = Some (35 + sin (real index / 2) * 0.2),
           ts_oxygen = None,
           ts_pressure = Some (1013 + real index * 2)\<rparr>) [0..<12],
      ts_sqlQuery = Some (''SELECT * FROM argo_profiles WHERE float_id = '' @ [CHR 0x27] @
        ''float_2903953'' @ [CHR 0x27] @ '' ORDER BY profile_date DESC LIMIT 12;'')\<rparr>"

definition SAMPLE_QUALITY :: "DataQualityReport list" where
  "SAMPLE_QUALITY =
    [\<lparr>metric = ''temperature_qc'', metric_value = 1, unit_of = Some ''qc'', flag = Some ''A'',
      description = Some ''All temperature readings passed Argo delayed-mode quality checks.''\<rparr>,
     \<lparr>metric = ''salinity_qc'', metric_value = 1, unit_of = Some ''qc'', flag = Some ''A'',
      description = Some ''Salinity aligns with climatology within acceptable tolerances.''\<rparr>,
     \<lparr>metric = ''profile_completeness'', metric_value = 0.94, unit_of = Some ''ratio'',
      flag = None,
      description = Some ''94% of expected depth levels reported for the latest cycle.''\<rparr>]"

text \<open>
  The resource methods. Each takes the outcome of its one request; the request path only
  names the resource and does not enter the result. A method returns \<open>Inr\<close> the value
  its promise resolves to, or \<open>Inl\<close> the exception the promise rejects with.
\<close>

definition getDatabaseStats :: "DatabaseStats fetch_result \<Rightarrow> exn + DatabaseStats" where
  "getDatabaseStats net =
     try_catch (fetchJson net)
       (\<lambda>error. Inr \<lparr>total_floats = int (length SAMPLE_FLOATS), last_updated = None,
                      dataset = Some ''Sample dataset''\<rparr>)"

definition getDatabaseStats_frontend :: "DatabaseStats fetch_result \<Rightarrow> exn + DatabaseStats" where
  "getDatabaseStats_frontend net =
     try_catch (fetchJson net)
       (\<lambda>error. Inr \<lparr>total_floats = int (length SAMPLE_FLOATS_frontend), last_updated = None,
                      dataset = Some ''Sample dataset''\<rparr>)"

definition getArgoFloats :: "ArgoFloat list fetch_result \<Rightarrow> exn + ArgoFloatsResult" where
  "getArgoFloats net =
     try_catch (case fetchJson net of Inl e \<Rightarrow> Inl e
                | Inr data \<Rightarrow> Inr \<lparr>floats_data = data, floats_source = Live\<rparr>)
       (\<lambda>error. Inr \<lparr>floats_data = SAMPLE_FLOATS, floats_source = Sample\<rparr>)"

definition getArgoFloats_frontend :: "ArgoFloat list fetch_result \<Rightarrow> exn + ArgoFloat list" where
  "getArgoFloats_frontend net = try_catch (fetchJson net) (\<lambda>error. Inr SAMPLE_FLOATS_frontend)"

definition getFloatProfile :: "ArgoProfile fetch_result \<Rightarrow> exn + ArgoProfile" where
  "getFloatProfile net = try_catch (fetchJson net) (\<lambda>error. Inr SAMPLE_PROFILE)"

definition getTimeSeriesData ::
  "(nat \<Rightarrow> int) \<Rightarrow> TimeSeriesResponse fetch_result \<Rightarrow> exn + TimeSeriesResponse" where
  "getTimeSeriesData offset_change net =
     try_catch (fetchJson net) (\<lambda>error. Inr (SAMPLE_TIME_SERIES offset_change))"

definition getDataQuality :: "DataQualityReport list fetch_result \<Rightarrow> exn + DataQualityReport list" where
  "getDataQuality net = try_catch (fetchJson net) (\<lambda>error. Inr SAMPLE_QUALITY)"

text \<open>
  The trajectory fallback is computed in the \<open>catch\<close> block from \<open>limit\<close> (an integer
  here) and from \<open>Date.now()\<close>. \<open>Array.from({ length })\<close> clamps a negative length to
  0; the callback runs for each index in turn and the first exception it throws leaves
  the \<open>catch\<close> block.
\<close>

definition array_length :: "int \<Rightarrow> nat" where
  "array_length n = (if n \<le> 0 then 0 else nat n)"

definition synthetic_point :: "int \<Rightarrow> int \<Rightarrow> nat \<Rightarrow> exn + TrajectoryPoint" where
  "synthetic_point limit now index =
     (case toISOString (now - (limit - int index) * 86400000) of
        Inl e \<Rightarrow> Inl e
      | Inr stamp \<Rightarrow>
          Inr \<lparr>tp_lat = 40.7 + real index * 0.02,
               tp_lon = -74 + real index * 0.015,
               tp_timestamp = stamp,
               tp_temperature = Some (18.5 - real index * 0.1),
               tp_salinity = Some (35.2 - real index * 0.02),
               tp_pressure = Some (1000 + real index * 5)\<rparr>)"

fun collect :: "(exn + 'a) list \<Rightarrow> exn + 'a list" where
  "collect [] = Inr []"
| "collect (Inl e # rest) = Inl e"
| "collect (Inr v # rest) = (case collect rest of Inl e \<Rightarrow> Inl e | Inr vs \<Rightarrow> Inr (v # vs))"

definition getFloatTrajectory ::
  "TrajectoryPoint list fetch_result \<Rightarrow> int \<Rightarrow> int \<Rightarrow> exn + TrajectoryPoint list" where
  "getFloatTrajectory net limit now =
     try_catch (fetchJson net)
       (\<lambda>error. collect (map (synthetic_point limit now) [0..<array_length (min limit 10)]))"

section \<open>Assistant responses (services/api.ts)\<close>

datatype message_content = ContentString string | ContentObject "string option" | ContentNull

record BackendAssistantMessage =
  bm_role :: string
  bm_content :: message_content
  bm_type :: "string option"
  bm_title :: "string option"
  bm_metadata :: "row option"

datatype result_data = Rows "row list" | Text string | NoResult

text \<open>
  \<open>messages\<close> is \<open>None\<close> when the payload has no array there; an entry of the array
  may be \<open>null\<close> (\<open>None\<close>). \<open>metadata\<close> is \<open>None\<close> unless it is a plain object.
\<close>

record AIResponse =
  sql_query :: "string option"
  result_data :: result_data
  messages :: "BackendAssistantMessage option list option"
  metadata :: "row option"
  error :: "string option"

definition askAI :: "AIResponse fetch_result \<Rightarrow> AIResponse" where
  "askAI net =
     (case fetchJson net of
        Inr payload \<Rightarrow> payload
      | Inl e \<Rightarrow> \<lparr>sql_query = Some ''Error connecting to backend.'', result_data = NoResult,
                   messages = None, metadata = None,
                   error = Some ''Could not connect to the AI server. Is it running?''\<rparr>)"

definition truthy_string :: "string option \<Rightarrow> bool" where
  "truthy_string v = (v \<noteq> None \<and> v \<noteq> Some [])"

section \<open>Initial welcome load (App)\<close>

record AppData =
  ad_data :: "row list"
  ad_sqlQuery :: string

datatype BackendStatus = Operational | Degraded | Offline

definition em_dash :: string where
  "em_dash = [CHR 0xE2, CHR 0x80, CHR 0x94]"

fun status_description :: "BackendStatus \<Rightarrow> string" where
  "status_description Operational = ''All systems nominal.''"
| "status_description Degraded = ''Serving cached insights while the backend stabilizes.''"
| "status_description Offline =
     ''Backend unreachable '' @ em_dash @ '' verify the Python API server.''"

text \<open>
  The state of \<open>App\<close> that the welcome load touches, the entry of \<open>localStorage\<close> under
  the welcome cache key, and two observations: how many times \<open>askAI\<close> was called and the
  delays (in ms) that were waited with \<open>setTimeout\<close>, in order.
\<close>

record app_state =
  appData :: AppData
  dataSynopsis :: "DataSynopsis option"
  backendStatus :: BackendStatus
  backendStatusDetail :: string
  app_isLoading :: bool
  welcome_cache :: "string option"
  askAI_calls :: nat
  timers :: "nat list"

text \<open>
  What \<open>JSON.parse\<close> returns. An array is kept at the declared type of a result set,
  a list of rows; an object is the list of its properties.
\<close>

datatype json =
    JsonNull
  | JsonBool bool
  | JsonNumber number
  | JsonString string
  | JsonArray "row list"
  | JsonObject "(string \<times> json) list"

text \<open>
  The surroundings of one welcome load: the built-ins, the outcome of the request made in
  each attempt, \<open>JSON.stringify\<close> on a payload, \<open>JSON.parse\<close> on a text (\<open>None\<close> when
  it throws), and whether \<open>localStorage.setItem\<close> throws.
\<close>

record app_env =
  env_builtins :: builtins
  network :: "nat \<Rightarrow> AIResponse fetch_result"
  JSON_stringify :: "AppData \<Rightarrow> string"
  JSON_parse :: "string \<Rightarrow> json option"
  setItem_throws :: bool

definition updateBackendStatus :: "BackendStatus \<Rightarrow> string option \<Rightarrow> app_state \<Rightarrow> app_state" where
  "updateBackendStatus status detail s =
     s\<lparr>backendStatus := status,
       backendStatusDetail :=
         (case detail of
            None \<Rightarrow> status_description status
          | Some d \<Rightarrow> if d \<noteq> [] \<and> trim d \<noteq> [] then d else status_description status)\<rparr>"

definition persistWelcomeData :: "app_env \<Rightarrow> AppData \<Rightarrow> app_state \<Rightarrow> app_state" where
  "persistWelcomeData env payload s =
     (if setItem_throws env then s else s\<lparr>welcome_cache := Some (JSON_stringify env payload)\<rparr>)"

definition loadCachedWelcomeData :: "app_env \<Rightarrow> app_state \<Rightarrow> AppData option" where
  "loadCachedWelcomeData env s =
     (case welcome_cache s of
        None \<Rightarrow> None
      | Some raw \<Rightarrow>
          if raw = [] then None
          else case JSON_parse env raw of
                 None \<Rightarrow> None
               | Some parsed \<Rightarrow>
                   (case parsed of
                      JsonObject properties \<Rightarrow>
                        (case map_of properties ''data'' of
                           Some (JsonArray rows) \<Rightarrow>
                             (case map_of properties ''sqlQuery'' of
                                Some (JsonString sql) \<Rightarrow> Some \<lparr>ad_data = rows, ad_sqlQuery = sql\<rparr>
                              | _ \<Rightarrow> None)
                         | _ \<Rightarrow> None)
                    | _ \<Rightarrow> None))"

definition maxAttempts :: nat where
  "maxAttempts = 3"

definition structurally_valid :: "AIResponse \<Rightarrow> bool" where
  \<comment> \<open>\<open>!response.error && Array.isArray(response.result_data) && response.sql_query\<close>\<close>
  "structurally_valid response =
     (\<not> truthy_string (error response) \<and>
      (case result_data response of Rows rows \<Rightarrow> True | _ \<Rightarrow> False) \<and>
      truthy_string (sql_query response))"

function welcome_attempts :: "app_env \<Rightarrow> nat \<Rightarrow> app_state \<Rightarrow> app_state \<times> bool" where
  "welcome_attempts env attempt s =
     (if attempt < maxAttempts then
        let response = askAI (network env attempt);
            s1 = s\<lparr>askAI_calls := askAI_calls s + 1\<rparr>
        in if structurally_valid response then
             (case (result_data response, sql_query response) of
                (Rows rows, Some sql) \<Rightarrow>
                  let payload = \<lparr>ad_data = rows, ad_sqlQuery = sql\<rparr>;
                      s2 = s1\<lparr>appData := payload,
                              dataSynopsis := createDataSynopsis (env_builtins env) rows\<rparr>;
                      s3 = persistWelcomeData env payload s2
                  in (updateBackendStatus Operational (Some ''Live telemetry synced.'') s3, True)
              | _ \<Rightarrow> (s1, False))
           else
             let s2 = (if attempt < maxAttempts - 1
                       then s1\<lparr>timers := timers s1 @ [400 * (attempt + 1) * (attempt + 1)]\<rparr>
                       else s1)
             in welcome_attempts env (attempt + 1) s2
      else (s, False))"
  by pat_completeness auto
termination
  by (relation "measure (\<lambda>(env, attempt, s). maxAttempts - attempt)") auto

declare welcome_attempts.simps [simp del]

definition fetchInitialData :: "app_env \<Rightarrow> app_state \<Rightarrow> app_state" where
  "fetchInitialData env s =
     (let s0 = (updateBackendStatus Operational (Some ''Requesting welcome telemetry...'') s)
                 \<lparr>app_isLoading := True\<rparr>;
          (s1, success) = welcome_attempts env 0 s0;
          s2 = (if \<not> success then
                  (case loadCachedWelcomeData env s1 of
                     Some cached \<Rightarrow>
                       updateBackendStatus Degraded
                         (Some ''Loaded cached telemetry while the backend recovers.'')
                         (s1\<lparr>appData := cached,
                             dataSynopsis := createDataSynopsis (env_builtins env) (ad_data cached)\<rparr>)
                   | None \<Rightarrow>
                       updateBackendStatus Offline
                         (Some ''Initial telemetry failed. Backend unreachable.'')
                         (s1\<lparr>appData := \<lparr>ad_data = [], ad_sqlQuery = []\<rparr>,
                             dataSynopsis := None\<rparr>))
                else s1)
      in s2\<lparr>app_isLoading := False\<rparr>)"

section \<open>Conversational interface (ChatInterface)\<close>

datatype sender = User | Assistant

record Message =
  msg_id :: string
  msg_content :: string
  msg_sender :: sender
  msg_timestamp :: nat
  msg_type :: "string option"
  msg_title :: "string option"
  msg_metadata :: "row option"

definition apostrophe :: string where
  "apostrophe = [CHR 0x27]"

definition buildWelcomeMessage :: "nat \<Rightarrow> Message" where
  "buildWelcomeMessage now =
     \<lparr>msg_id = ''welcome-'' @ show_nat now,
      msg_content = ''Welcome to FloatAI '' @ em_dash @ '' your ARGO mission copilot.'' @
        [CHR 0x0A] @ ''Ask a question to surface floats, profiles, or trends when you'' @
        apostrophe @ ''re ready.'',
      msg_sender = Assistant, msg_timestamp = now, msg_type = None, msg_title = None,
      msg_metadata = None\<rparr>"

definition toLowerCase :: "string \<Rightarrow> string" where
  "toLowerCase s =
     map (\<lambda>c. case map_of (zip ''ABCDEFGHIJKLMNOPQRSTUVWXYZ'' ''abcdefghijklmnopqrstuvwxyz'') c of
                Some l \<Rightarrow> l | None \<Rightarrow> c) s"

fun starts_with :: "string \<Rightarrow> string \<Rightarrow> bool" where
  "starts_with s [] = True"
| "starts_with [] (p # ps) = False"
| "starts_with (c # cs) (p # ps) = (c = p \<and> starts_with cs ps)"

fun contains :: "string \<Rightarrow> string \<Rightarrow> bool" where
  "contains [] sub = (sub = [])"
| "contains (c # cs) sub = (starts_with (c # cs) sub \<or> contains cs sub)"

definition matches_any :: "string list \<Rightarrow> string \<Rightarrow> bool" where
  \<comment> \<open>\<open>/(a|b|...)/.test(s)\<close> for an alternation of literal strings\<close>
  "matches_any alternatives s = list_ex (contains s) alternatives"

definition evaluateComplexity :: "string \<Rightarrow> int" where
  "evaluateComplexity query =
     (let normalized = toLowerCase query;
          advancedKeywords = [''join'', ''window'', ''rank'', ''dense_rank'', ''correl'',
            ''regression'', ''cluster'', ''anomal'', ''fourier'', ''decomposition'', ''kalman'',
            ''wavelet'', ''predict''];
          analyticKeywords = [''avg'', ''sum'', ''count'', ''variance'', ''stddev'', ''percentile'',
            ''median'', ''quantile'', ''lag'', ''lead'', ''partition'', ''group by'', ''order by''];
          conditionalPatterns = [''>='', ''<='', ''!='', '' like '', '' between '', '' in ('',
            ''case when''];
          geospatialPatterns = [''polygon'', ''bbox'', ''buffer'', ''distance'', ''geography'',
            ''geospatial'', ''haversine'']
      in (if matches_any advancedKeywords normalized then 4 else 0) +
         (if matches_any analyticKeywords normalized then 2 else 0) +
         (if matches_any conditionalPatterns normalized then 1 else 0) +
         (if matches_any geospatialPatterns normalized then 2 else 0) +
         (if length normalized > 140 then 2 else 0) +
         (if length (filter (\<lambda>c. c = CHR ''('' \<or> c = CHR '')'') normalized) > 4 then 1 else 0))"

definition classifyComplexity :: "int \<Rightarrow> int" where
  \<comment> \<open>the \<open>delta\<close> of the classification\<close>
  "classifyComplexity score =
     (if score \<ge> 6 then 3 else if score \<ge> 4 then 2 else if score \<ge> 2 then 1
      else if score \<ge> 1 then 1 else -1)"

fun extractMessageContent :: "message_content \<Rightarrow> string" where
  "extractMessageContent (ContentString s) = s"
| "extractMessageContent (ContentObject (Some text)) = text"
| "extractMessageContent (ContentObject None) = []"
| "extractMessageContent ContentNull = []"

definition object_spread :: "row \<Rightarrow> row \<Rightarrow> row" where
  \<comment> \<open>\<open>{ ...base, ...entry }\<close>\<close>
  "object_spread base entry =
     map (\<lambda>(k, v). (k, case map_of entry k of Some v' \<Rightarrow> v' | None \<Rightarrow> v)) base @
     filter (\<lambda>(k, v). k \<notin> set (map fst base)) entry"

fun enumerate_from :: "nat \<Rightarrow> 'a list \<Rightarrow> (nat \<times> 'a) list" where
  "enumerate_from i [] = []"
| "enumerate_from i (x # xs) = (i, x) # enumerate_from (Suc i) xs"

definition normalizeAssistantMessages :: "AIResponse \<Rightarrow> string \<Rightarrow> nat \<Rightarrow> Message list" where
  "normalizeAssistantMessages payload fallbackText timestampSeed =
     (let baseMetadata = (case metadata payload of Some m \<Rightarrow> m | None \<Rightarrow> []);
          rawMessages = (case messages payload of Some ms \<Rightarrow> ms | None \<Rightarrow> [])
      in if length rawMessages > 0 then
           map (\<lambda>(index, entry).
                  let derivedContentRaw = extractMessageContent (bm_content entry);
                      derivedContent = (if trim derivedContentRaw \<noteq> []
                                        then trim derivedContentRaw else fallbackText);
                      entryMetadata = (case bm_metadata entry of Some m \<Rightarrow> m | None \<Rightarrow> [])
                  in \<lparr>msg_id = ''assistant-'' @ show_nat timestampSeed @ ''-'' @ show_nat index,
                      msg_content = derivedContent,
                      msg_sender = Assistant,
                      msg_timestamp = timestampSeed + index,
                      msg_type = bm_type entry,
                      msg_title = bm_title entry,
                      msg_metadata = Some (object_spread baseMetadata entryMetadata)\<rparr>)
               (enumerate_from 0
                  (somes (filter (\<lambda>entry. case entry of None \<Rightarrow> False
                                           | Some m \<Rightarrow> bm_role m = ''assistant'') rawMessages)))
         else
           let normalizedFallback = trim fallbackText;
               fallbackContent =
                 (if normalizedFallback \<noteq> [] then normalizedFallback
                  else if (case result_data payload of Text t \<Rightarrow> trim t \<noteq> [] | _ \<Rightarrow> False)
                  then (case result_data payload of Text t \<Rightarrow> trim t | _ \<Rightarrow> [])
                  else if truthy_string (error payload)
                  then ''An error occurred: '' @ the (error payload)
                  else ''I'' @ apostrophe @ ''m still processing that'' @ em_dash @
                       ''please try again.'')
           in [\<lparr>msg_id = ''assistant-'' @ show_nat timestampSeed,
                msg_content = fallbackContent,
                msg_sender = Assistant,
                msg_timestamp = timestampSeed,
                msg_type = Some (if truthy_string (error payload) then ''error'' else ''text''),
                msg_title = None,
                msg_metadata = Some baseMetadata\<rparr>])"

text \<open>
  The state of the chat component. \<open>sessionId\<close> is the counter held in
  \<open>sessionIdRef\<close>. The calls the component makes to the callbacks it was given by its
  parent are recorded in order; they are how a response reaches the rest of the
  dashboard.
\<close>

datatype parent_call =
    DataReceived "row list" string
  | BackendStatusChange BackendStatus string
  | ComplexitySignal int string

record chat_state =
  sessionId :: nat
  chat_messages :: "Message list"
  chat_input :: string
  chat_isLoading :: bool
  showNewMessagesBadge :: bool
  isAtBottom :: bool
  messageCount :: nat
  summarySignature :: "string option"
  parent_calls :: "parent_call list"

definition call_parent :: "parent_call \<Rightarrow> chat_state \<Rightarrow> chat_state" where
  "call_parent c s = s\<lparr>parent_calls := parent_calls s @ [c]\<rparr>"

text \<open>
  \<open>sendPrompt\<close> up to its \<open>await\<close>: the result carries the session counter captured
  for the request, or \<open>None\<close> when the prompt is refused.
\<close>

definition sendPrompt_begin :: "string \<Rightarrow> bool \<Rightarrow> nat \<Rightarrow> chat_state \<Rightarrow> chat_state \<times> nat option" where
  "sendPrompt_begin prompt preserveInput now s =
     (let trimmed = trim prompt in
      if trimmed = [] \<or> chat_isLoading s then (s, None)
      else
        let currentSessionId = sessionId s;
            userMessage = \<lparr>msg_id = show_nat now, msg_content = trimmed, msg_sender = User,
                           msg_timestamp = now, msg_type = Some ''text'', msg_title = None,
                           msg_metadata = None\<rparr>;
            s1 = s\<lparr>chat_messages := chat_messages s @ [userMessage]\<rparr>;
            s2 = (if \<not> preserveInput then s1\<lparr>chat_input := []\<rparr> else s1);
            delta = classifyComplexity (evaluateComplexity trimmed);
            s3 = call_parent (ComplexitySignal delta trimmed) s2
        in (s3\<lparr>chat_isLoading := True\<rparr>, Some currentSessionId))"

definition or_default :: "string option \<Rightarrow> string \<Rightarrow> string" where
  \<comment> \<open>\<open>value || fallback\<close> on a nullable string\<close>
  "or_default v d = (case v of None \<Rightarrow> d | Some x \<Rightarrow> if x = [] then d else x)"

definition interpret_response :: "AIResponse \<Rightarrow> chat_state \<Rightarrow> string \<times> chat_state" where
  \<comment> \<open>the branch on the response: the fallback text and the calls to the parent\<close>
  "interpret_response response s =
     (if truthy_string (error response) then
        (''An error occurred: '' @ the (error response),
         call_parent (BackendStatusChange Degraded (the (error response)))
           (call_parent (DataReceived [] (or_default (sql_query response) ''Error executing query.'')) s))
      else case result_data response of
        Rows data \<Rightarrow>
          if length data > 0 then
            (''I pulled '' @ show_nat (length data) @
               '' records and synced them with the main viewscreen.'',
             call_parent (BackendStatusChange Operational
                            (''Synced '' @ show_nat (length data) @ '' records.''))
               (call_parent (DataReceived data (or_default (sql_query response) [])) s))
          else
            (''The query ran successfully but returned no rows. Adjust your parameters and try again.'',
             call_parent (BackendStatusChange Degraded ''Query returned no rows.'')
               (call_parent (DataReceived [] (or_default (sql_query response) [])) s))
      | Text t \<Rightarrow>
          if trim t \<noteq> [] then
            (trim t,
             call_parent (BackendStatusChange Operational
                            ''Assistant responded with narrative guidance.'') s)
          else
            (''I'' @ apostrophe @ ''m not sure how to answer that.'',
             call_parent (BackendStatusChange Degraded
                            ''Assistant could not determine an answer.'') s)
      | NoResult \<Rightarrow>
          (''I'' @ apostrophe @ ''m not sure how to answer that.'',
           call_parent (BackendStatusChange Degraded
                          ''Assistant could not determine an answer.'') s))"

text \<open>
  \<open>sendPrompt\<close> from the point where the awaited request settles, with the counter it
  captured: \<open>Inr\<close> a response, \<open>Inl\<close> a rejection. \<open>now\<close> is the clock at that time.
\<close>

definition sendPrompt_settle :: "nat \<Rightarrow> exn + AIResponse \<Rightarrow> nat \<Rightarrow> chat_state \<Rightarrow> chat_state" where
  "sendPrompt_settle currentSessionId outcome now s =
     (let s1 =
        (case outcome of
           Inr response \<Rightarrow>
             if sessionId s \<noteq> currentSessionId then s
             else
               let (fallbackContent, s') = interpret_response response s;
                   assistantMessages = normalizeAssistantMessages response fallbackContent now
               in s'\<lparr>chat_messages := chat_messages s' @ assistantMessages\<rparr>
         | Inl err \<Rightarrow>
             if sessionId s \<noteq> currentSessionId then s
             else
               let errorMessage =
                     \<lparr>msg_id = show_nat now @ ''-error'',
                      msg_content =
                        ''Failed to connect to the AI server. Please make sure it is running.'',
                      msg_sender = Assistant, msg_timestamp = now, msg_type = Some ''error'',
                      msg_title = None, msg_metadata = None\<rparr>
               in call_parent (BackendStatusChange Offline ''Unable to reach the backend.'')
                    (s\<lparr>chat_messages := chat_messages s @ [errorMessage]\<rparr>))
      in if sessionId s1 = currentSessionId then s1\<lparr>chat_isLoading := False\<rparr> else s1)"

definition handleResetConversation :: "nat \<Rightarrow> chat_state \<Rightarrow> chat_state" where
  "handleResetConversation now s =
     call_parent (BackendStatusChange Operational ''Chat console reset.'')
       (call_parent (DataReceived [] [])
          (s\<lparr>sessionId := sessionId s + 1,
             chat_messages := [buildWelcomeMessage now],
             chat_input := [],
             showNewMessagesBadge := False,
             isAtBottom := True,
             chat_isLoading := False,
             messageCount := 1,
             summarySignature := None\<rparr>))"

text \<open>What can happen to the chat between two moments, and the state it leaves.\<close>

datatype chat_event =
    Send string bool nat
  | Settle nat "exn + AIResponse" nat
  | Reset nat

fun chat_step :: "chat_state \<Rightarrow> chat_event \<Rightarrow> chat_state" where
  "chat_step s (Send prompt preserveInput now) = fst (sendPrompt_begin prompt preserveInput now s)"
| "chat_step s (Settle captured outcome now) = sendPrompt_settle captured outcome now s"
| "chat_step s (Reset now) = handleResetConversation now s"

definition chat_run :: "chat_state \<Rightarrow> chat_event list \<Rightarrow> chat_state" where
  "chat_run s events = foldl chat_step s events"

section \<open>Reference descriptions used in the statements\<close>





text \<open>
  A failing fetch, as the specification lists the cases: a network error, a status
  outside 200..299, or a body that is not JSON.
\<close>

fun fetch_fails :: "'a fetch_result \<Rightarrow> bool" where
  "fetch_fails NetworkFailure = True"
| "fetch_fails (HttpResponse status body) = (\<not> response_ok status \<or> body = None)"

text \<open>The point of the synthetic trajectory at an index, when its date is in range.\<close>

definition sample_point :: "int \<Rightarrow> int \<Rightarrow> nat \<Rightarrow> TrajectoryPoint" where
  "sample_point limit now index =
     \<lparr>tp_lat = 40.7 + real index * 0.02, tp_lon = -74 + real index * 0.015,
      tp_timestamp = ISO (now - (limit - int index) * 86400000),
      tp_temperature = Some (18.5 - real index * 0.1),
      tp_salinity = Some (35.2 - real index * 0.02),
      tp_pressure = Some (1000 + real index * 5)\<rparr>"

text \<open>
  The welcome load, as the specification words it: whether the request of an attempt
  yields a response the code accepts, how many attempts a load therefore makes, and what
  an accepted response leaves in the state.
\<close>

definition attempt_ok :: "app_env \<Rightarrow> nat \<Rightarrow> bool" where
  "attempt_ok env k = structurally_valid (askAI (network env k))"

definition attempts_made :: "app_env \<Rightarrow> nat" where
  "attempts_made env = (if attempt_ok env 0 then 1 else if attempt_ok env 1 then 2 else 3)"

definition welcome_success :: "app_env \<Rightarrow> AIResponse \<Rightarrow> app_state \<Rightarrow> app_state" where
  "welcome_success env response s =
     (case (result_data response, sql_query response) of
        (Rows rows, Some sql) \<Rightarrow>
           updateBackendStatus Operational (Some ''Live telemetry synced.'')
             (persistWelcomeData env \<lparr>ad_data = rows, ad_sqlQuery = sql\<rparr>
                (s\<lparr>appData := \<lparr>ad_data = rows, ad_sqlQuery = sql\<rparr>,
                   dataSynopsis := createDataSynopsis (env_builtins env) rows\<rparr>))
      | _ \<Rightarrow> s)"

text \<open>
  The persisted snapshot in the words of the specification: the entry under the key, when
  it is the JSON text of an object \<open>{data, sqlQuery}\<close> with an array and a string.
\<close>

fun snapshot_of_json :: "json \<Rightarrow> AppData option" where
  "snapshot_of_json (JsonObject properties) =
     (case (map_of properties ''data'', map_of properties ''sqlQuery'') of
        (Some (JsonArray rows), Some (JsonString sql)) \<Rightarrow>
          Some \<lparr>ad_data = rows, ad_sqlQuery = sql\<rparr>
      | _ \<Rightarrow> None)"
| "snapshot_of_json other = None"

definition stored_snapshot :: "app_env \<Rightarrow> string option \<Rightarrow> AppData option" where
  "stored_snapshot env entry =
     (case entry of
        None \<Rightarrow> None
      | Some raw \<Rightarrow> if raw = [] then None else Option.bind (JSON_parse env raw) snapshot_of_json)"

definition json_of_AppData :: "AppData \<Rightarrow> json" where
  "json_of_AppData payload =
     JsonObject [(''data'', JsonArray (ad_data payload)),
                 (''sqlQuery'', JsonString (ad_sqlQuery payload))]"

text \<open>
  A structurally valid response in the words of the specification: no error field, an
  array result, SQL text that is not null.
\<close>

definition spec_structurally_valid :: "AIResponse \<Rightarrow> bool" where
  "spec_structurally_valid response =
     (error response = None \<and>
      (case result_data response of Rows rows \<Rightarrow> True | _ \<Rightarrow> False) \<and>
      sql_query response \<noteq> None)"

section \<open>Concrete inputs for the examples\<close>

text \<open>
  Built-ins for the examples: integers are rendered in decimal, no value parses as a date.
\<close>

definition plain_builtins :: builtins where
  "plain_builtins =
     \<lparr>number_toString = (\<lambda>x. if x < 0 then ''-'' @ show_nat (nat \<lfloor>- x\<rfloor>)
                              else show_nat (nat \<lfloor>x\<rfloor>)),
      count_toLocaleString = show_nat,
      Date_getTime = (\<lambda>v. None),
      toLocaleDateString = (\<lambda>t. show_nat (nat t))\<rparr>"




definition row_a :: row where
  "row_a = [(''a'', JNum (Fin 1))]"

definition row_b :: row where
  "row_b = [(''b'', JNum (Fin 2))]"

definition float_row_7 :: row where
  "float_row_7 = [(''float_id'', JStr ''7''), (''temperature'', JNum (Fin 4))]"

definition float_row_8 :: row where
  "float_row_8 = [(''float_id'', JNum (Fin 8)), (''temperature'', JNull)]"

definition good_response :: AIResponse where
  "good_response =
     \<lparr>sql_query = Some ''SELECT 1'', result_data = Rows [float_row_7], messages = None,
      metadata = None, error = None\<rparr>"

definition empty_sql_response :: AIResponse where
  "empty_sql_response =
     \<lparr>sql_query = Some [], result_data = Rows [float_row_7], messages = None,
      metadata = None, error = None\<rparr>"

fun flaky_network :: "nat \<Rightarrow> AIResponse fetch_result" where
  "flaky_network k = (if k < 2 then NetworkFailure else HttpResponse 200 (Some good_response))"

fun empty_sql_network :: "nat \<Rightarrow> AIResponse fetch_result" where
  "empty_sql_network k = HttpResponse 200 (Some empty_sql_response)"

fun down_network :: "nat \<Rightarrow> AIResponse fetch_result" where
  "down_network k = NetworkFailure"

text \<open>
  The payload of \<open>good_response\<close> and its JSON text: an object with the property
  \<open>data\<close>, an array holding the one row, and the property \<open>sqlQuery\<close>, without white
  space. \<open>JSON.stringify\<close> and \<open>JSON.parse\<close> are tabulated for the examples: the payload
  is the only value they persist, its text and the text \<open>not json\<close> the only ones they
  store. A text outside the table counts as one that \<open>JSON.parse\<close> rejects, as it does
  reject \<open>not json\<close>.
\<close>

definition example_payload :: AppData where
  "example_payload = \<lparr>ad_data = [float_row_7], ad_sqlQuery = ''SELECT 1''\<rparr>"

definition dq :: string where
  "dq = [CHR 0x22]"

definition snapshot_text :: string where
  "snapshot_text =
     ''{'' @ dq @ ''data'' @ dq @ '':[{'' @ dq @ ''float_id'' @ dq @ '':'' @ dq @ ''7'' @ dq @
     '','' @ dq @ ''temperature'' @ dq @ '':4}],'' @ dq @ ''sqlQuery'' @ dq @ '':'' @ dq @
     ''SELECT 1'' @ dq @ ''}''"

definition example_stringify :: "AppData \<Rightarrow> string" where
  "example_stringify payload = (if payload = example_payload then snapshot_text else [])"

definition example_parse :: "string \<Rightarrow> json option" where
  "example_parse raw =
     (if raw = snapshot_text then Some (json_of_AppData example_payload) else None)"

definition example_env :: "(nat \<Rightarrow> AIResponse fetch_result) \<Rightarrow> app_env" where
  "example_env net =
     \<lparr>env_builtins = plain_builtins, network = net,
      JSON_stringify = example_stringify,
      JSON_parse = example_parse,
      setItem_throws = False\<rparr>"

fun utc_zone :: "nat \<Rightarrow> int" where
  "utc_zone index = 0"

definition idle_app :: "string option \<Rightarrow> app_state" where
  "idle_app cache =
     \<lparr>appData = \<lparr>ad_data = [], ad_sqlQuery = []\<rparr>, dataSynopsis = None,
      backendStatus = Operational, backendStatusDetail = status_description Operational,
      app_isLoading = True, welcome_cache = cache, askAI_calls = 0, timers = []\<rparr>"

definition fresh_chat :: chat_state where
  "fresh_chat =
     \<lparr>sessionId = 0, chat_messages = [buildWelcomeMessage 0], chat_input = [],
      chat_isLoading = False, showNewMessagesBadge = False, isAtBottom = True,
      messageCount = 0, summarySignature = None, parent_calls = []\<rparr>"

definition narrative_response :: AIResponse where
  "narrative_response =
     \<lparr>sql_query = None, result_data = Text ''Floats drift with the currents.'',
      messages = None, metadata = None, error = None\<rparr>"

definition system_only_response :: AIResponse where
  "system_only_response =
     \<lparr>sql_query = None, result_data = Text ''Floats drift with the currents.'',
      messages = Some [Some \<lparr>bm_role = ''system'', bm_content = ContentString ''trace'',
                             bm_type = None, bm_title = None, bm_metadata = None\<rparr>, None],
      metadata = None, error = None\<rparr>"

section \<open>Properties of the statistics engine\<close>






























section \<open>Properties of the column extraction\<close>

lemma somes_filter: "map Some (somes vs) = filter (\<lambda>v. v \<noteq> None) vs"
  by (induction vs rule: somes.induct) auto

lemma extract_cell:
  "(if typeof v = ''number'' \<and> \<not> Number_isNaN v then number_of v else None) =
   (if number_of v = Some NaN then None else number_of v)"
  by (cases v rule: typeof.cases) (auto simp: isNaN_def)

text \<open>
  Claim C8, as the code has it. \<open>extractNumericValues\<close> returns, in row order, the values
  of the column that are numbers other than NaN: a missing cell, a cell that is not a
  number and a NaN are dropped without any error. Positive and negative infinity are
  numbers other than NaN and are kept.
\<close>

theorem extractNumericValues_spec:
  "map Some (extractNumericValues rows key) =
     filter (\<lambda>v. v \<noteq> None \<and> v \<noteq> Some NaN) (map (\<lambda>row. number_of (get row key)) rows)"
proof -
  have "filter (\<lambda>v. v \<noteq> None) (map (\<lambda>row. if number_of (get row key) = Some NaN then None
                                                 else number_of (get row key)) rows) =
        filter (\<lambda>v. v \<noteq> None \<and> v \<noteq> Some NaN) (map (\<lambda>row. number_of (get row key)) rows)"
    by (induction rows) auto
  then show ?thesis
    by (simp add: extractNumericValues_def somes_filter extract_cell)
qed

theorem extractNumericValues_keeps_infinity:
  "extractNumericValues [[(''temperature'', JNum PosInfinity)]] ''temperature'' = [PosInfinity] \<and>
   \<not> isFinite PosInfinity"
  by (simp add: extractNumericValues_def get_def isNaN_def)

section \<open>Properties of the fetch client\<close>

lemma try_catch_fails: "fetch_fails net \<Longrightarrow> try_catch (fetchJson net) (\<lambda>error. fb) = fb"
  by (cases net) (auto simp: try_catch_def split: option.splits)

lemma collect_map_Inr:
  assumes "\<And>i. i \<in> set is \<Longrightarrow> f i = Inr (g i)"
  shows "collect (map f is) = Inr (map g is)"
  using assms by (induction "is") auto

lemma synthetic_trajectory_valid_dates:
  assumes "fetch_fails net"
    and "list_all (\<lambda>index. valid_time (now - (limit - int index) * 86400000))
           [0..<array_length (min limit 10)]"
  shows "getFloatTrajectory net limit now =
           Inr (map (sample_point limit now) [0..<array_length (min limit 10)])"
proof -
  have "collect (map (synthetic_point limit now) [0..<array_length (min limit 10)]) =
        Inr (map (sample_point limit now) [0..<array_length (min limit 10)])"
  proof (rule collect_map_Inr)
    fix i assume "i \<in> set [0..<array_length (min limit 10)]"
    then have "valid_time (now - (limit - int i) * 86400000)"
      using assms(2) by (simp add: list_all_iff)
    then show "synthetic_point limit now i = Inr (sample_point limit now i)"
      by (simp add: synthetic_point_def toISOString_def sample_point_def)
  qed
  then show ?thesis using assms(1)
    by (simp add: getFloatTrajectory_def try_catch_fails)
qed

lemma synthetic_dates_in_range:
  assumes "0 \<le> now" "now \<le> 8640000000000000" "limit \<le> 100000000"
  shows "list_all (\<lambda>index. valid_time (now - (limit - int index) * 86400000))
           [0..<array_length (min limit 10)]"
proof -
  have "valid_time (now - (limit - int i) * 86400000)"
    if "i \<in> set [0..<array_length (min limit 10)]" for i
  proof -
    from that have "int i < limit" by (auto simp: array_length_def split: if_splits)
    then have "0 < limit - int i" "limit - int i \<le> 100000000" using assms by auto
    then have "0 < (limit - int i) * 86400000"
      "(limit - int i) * 86400000 \<le> 100000000 * 86400000"
      by (auto simp: mult_le_cancel_right)
    then show ?thesis using assms by (auto simp: valid_time_def)
  qed
  then show ?thesis by (simp add: list_all_iff)
qed

text \<open>
  A limit so large that the first synthetic date leaves the range of \<open>Date\<close> makes
  \<open>toISOString\<close> throw inside the \<open>catch\<close> block, and the method rejects.
\<close>

lemma getFloatTrajectory_range_error:
  "getFloatTrajectory NetworkFailure 1000000000 1700000000000 = Inl RangeError"
  by (simp add: getFloatTrajectory_def try_catch_def array_length_def synthetic_point_def
      toISOString_def valid_time_def upt_rec)

text \<open>
  Claim C1, as the code has it. On every failing fetch (network error, status outside
  200..299, unparsable body) the stats, catalog, profile, time-series and quality methods
  of both copies of the client resolve to their fixed sample value and do not throw; the
  sample time series is the one the module built at load time in the time zone of the
  host. The trajectory method resolves to a synthetic path that is computed from
  \<open>limit\<close> and from the clock: \<open>min(limit, 10)\<close> points (none for a limit below 1), the
  point at an index dated \<open>limit - index\<close> days before now. This holds whenever each of
  these dates lies within 8.64e15 ms of the epoch, as they all do when the clock reads
  between 0 and 8.64e15 ms and the limit is at most 100000000.
\<close>

theorem fetch_client_fallbacks:
  "(fetch_fails n1 \<longrightarrow>
      getDatabaseStats n1 =
        Inr \<lparr>total_floats = 6, last_updated = None, dataset = Some ''Sample dataset''\<rparr> \<and>
      getDatabaseStats_frontend n1 =
        Inr \<lparr>total_floats = 3, last_updated = None, dataset = Some ''Sample dataset''\<rparr>) \<and>
   (fetch_fails n2 \<longrightarrow>
      getArgoFloats n2 = Inr \<lparr>floats_data = SAMPLE_FLOATS, floats_source = Sample\<rparr> \<and>
      getArgoFloats_frontend n2 = Inr SAMPLE_FLOATS_frontend) \<and>
   (fetch_fails n3 \<longrightarrow> getFloatProfile n3 = Inr SAMPLE_PROFILE) \<and>
   (fetch_fails n4 \<longrightarrow> getTimeSeriesData zone n4 = Inr (SAMPLE_TIME_SERIES zone)) \<and>
   (fetch_fails n5 \<longrightarrow> getDataQuality n5 = Inr SAMPLE_QUALITY) \<and>
   (fetch_fails n6 \<and>
    list_all (\<lambda>index. valid_time (now - (limit - int index) * 86400000))
      [0..<array_length (min limit 10)] \<longrightarrow>
      getFloatTrajectory n6 limit now =
        Inr (map (sample_point limit now) [0..<array_length (min limit 10)])) \<and>
   (0 \<le> now \<and> now \<le> 8640000000000000 \<and> limit \<le> 100000000 \<longrightarrow>
      list_all (\<lambda>index. valid_time (now - (limit - int index) * 86400000))
        [0..<array_length (min limit 10)])"
proof -
  have stats: "fetch_fails n1 \<Longrightarrow>
      getDatabaseStats n1 =
        Inr \<lparr>total_floats = 6, last_updated = None, dataset = Some ''Sample dataset''\<rparr> \<and>
      getDatabaseStats_frontend n1 =
        Inr \<lparr>total_floats = 3, last_updated = None, dataset = Some ''Sample dataset''\<rparr>"
    by (simp add: getDatabaseStats_def getDatabaseStats_frontend_def try_catch_fails
        SAMPLE_FLOATS_def SAMPLE_FLOATS_frontend_def)
  have floats: "fetch_fails n2 \<Longrightarrow>
      getArgoFloats n2 = Inr \<lparr>floats_data = SAMPLE_FLOATS, floats_source = Sample\<rparr> \<and>
      getArgoFloats_frontend n2 = Inr SAMPLE_FLOATS_frontend"
    by (cases n2) (auto simp: getArgoFloats_def getArgoFloats_frontend_def try_catch_def
        split: option.splits)
  have rest: "fetch_fails n3 \<Longrightarrow> getFloatProfile n3 = Inr SAMPLE_PROFILE"
    "fetch_fails n4 \<Longrightarrow> getTimeSeriesData zone n4 = Inr (SAMPLE_TIME_SERIES zone)"
    "fetch_fails n5 \<Longrightarrow> getDataQuality n5 = Inr SAMPLE_QUALITY"
    by (simp_all add: getFloatProfile_def getTimeSeriesData_def getDataQuality_def
        try_catch_fails)
  show ?thesis
    using stats floats rest synthetic_trajectory_valid_dates [of n6 now limit]
      synthetic_dates_in_range [of now limit]
    by blast
qed

theorem fetch_client_fallbacks_witness:
  "fetch_fails (NetworkFailure :: DatabaseStats fetch_result) \<and>
   getDatabaseStats NetworkFailure =
     Inr \<lparr>total_floats = 6, last_updated = None, dataset = Some ''Sample dataset''\<rparr> \<and>
   fetch_fails (HttpResponse 503 (Some []) :: ArgoFloat list fetch_result) \<and>
   getArgoFloats (HttpResponse 503 (Some [])) =
     Inr \<lparr>floats_data = SAMPLE_FLOATS, floats_source = Sample\<rparr> \<and>
   fetch_fails (HttpResponse 200 None :: ArgoProfile fetch_result) \<and>
   getFloatProfile (HttpResponse 200 None) = Inr SAMPLE_PROFILE \<and>
   fetch_fails (HttpResponse 404 None :: TimeSeriesResponse fetch_result) \<and>
   getTimeSeriesData utc_zone (HttpResponse 404 None) = Inr (SAMPLE_TIME_SERIES utc_zone) \<and>
   fetch_fails (NetworkFailure :: DataQualityReport list fetch_result) \<and>
   getDataQuality NetworkFailure = Inr SAMPLE_QUALITY \<and>
   fetch_fails (NetworkFailure :: TrajectoryPoint list fetch_result) \<and>
   (0::int) \<le> 1700000000000 \<and> (1700000000000::int) \<le> 8640000000000000 \<and>
   (60::int) \<le> 100000000 \<and>
   list_all (\<lambda>index. valid_time (1700000000000 - (60 - int index) * 86400000))
     [0..<array_length (min 60 10)] \<and>
   getFloatTrajectory NetworkFailure 60 1700000000000 =
     Inr (map (sample_point 60 1700000000000) [0..<10])"
  using fetch_client_fallbacks [of NetworkFailure "HttpResponse 503 (Some [])"
      "HttpResponse 200 None" "HttpResponse 404 None" utc_zone NetworkFailure NetworkFailure
      1700000000000 60]
  by (simp add: response_ok_def array_length_def)

theorem trajectory_fallback_depends_on_clock_and_limit:
  "fetch_fails (NetworkFailure :: TrajectoryPoint list fetch_result) \<and>
   getFloatTrajectory NetworkFailure 1 1700000000000 =
     Inr [\<lparr>tp_lat = 40.7, tp_lon = -74, tp_timestamp = ISO 1699913600000,
           tp_temperature = Some 18.5, tp_salinity = Some 35.2, tp_pressure = Some 1000\<rparr>] \<and>
   getFloatTrajectory NetworkFailure 1 1700000000001 =
     Inr [\<lparr>tp_lat = 40.7, tp_lon = -74, tp_timestamp = ISO 1699913600001,
           tp_temperature = Some 18.5, tp_salinity = Some 35.2, tp_pressure = Some 1000\<rparr>] \<and>
   getFloatTrajectory NetworkFailure 0 1700000000000 = Inr []"
  by (simp add: getFloatTrajectory_def try_catch_def array_length_def synthetic_point_def
      toISOString_def valid_time_def upt_rec)

text \<open>
  Claim C9, as the code has it. In the client that \<open>App\<close> imports, a failed catalog
  fetch resolves to the fixed six-entry sample fleet, tagged as sample data; its first
  entry is float 5905612 at latitude -33.5, longitude 151.3, status active. The copy of
  the client under \<open>frontend/\<close> resolves to its own fixed fleet of three entries
  instead. In both copies a failed profile fetch resolves to the fixed sample profile with
  depths 0, 200, 500, 1000 and values 20.2, 15.1, 8.3, 4.2.
\<close>

theorem sample_fleet_and_profile:
  "(fetch_fails net \<longrightarrow>
      getArgoFloats net = Inr \<lparr>floats_data = SAMPLE_FLOATS, floats_source = Sample\<rparr> \<and>
      getArgoFloats_frontend net = Inr SAMPLE_FLOATS_frontend) \<and>
   length SAMPLE_FLOATS = 6 \<and>
   af_id (hd SAMPLE_FLOATS) = ''5905612'' \<and> af_lat (hd SAMPLE_FLOATS) = -33.5 \<and>
   af_lon (hd SAMPLE_FLOATS) = 151.3 \<and> af_status (hd SAMPLE_FLOATS) = ''active'' \<and>
   map af_id SAMPLE_FLOATS_frontend = [''float_2903953'', ''float_4903838'', ''float_7901125''] \<and>
   (fetch_fails pnet \<longrightarrow> getFloatProfile pnet = Inr SAMPLE_PROFILE) \<and>
   depth SAMPLE_PROFILE = [0, 200, 500, 1000] \<and>
   values_of SAMPLE_PROFILE = [20.2, 15.1, 8.3, 4.2]"
proof -
  have floats: "fetch_fails net \<Longrightarrow>
      getArgoFloats net = Inr \<lparr>floats_data = SAMPLE_FLOATS, floats_source = Sample\<rparr> \<and>
      getArgoFloats_frontend net = Inr SAMPLE_FLOATS_frontend"
    by (cases net) (auto simp: getArgoFloats_def getArgoFloats_frontend_def try_catch_def
        split: option.splits)
  have profile: "fetch_fails pnet \<Longrightarrow> getFloatProfile pnet = Inr SAMPLE_PROFILE"
    by (simp add: getFloatProfile_def try_catch_fails)
  have vals: "length SAMPLE_FLOATS = 6"
    "af_id (hd SAMPLE_FLOATS) = ''5905612''" "af_lat (hd SAMPLE_FLOATS) = -33.5"
    "af_lon (hd SAMPLE_FLOATS) = 151.3" "af_status (hd SAMPLE_FLOATS) = ''active''"
    "map af_id SAMPLE_FLOATS_frontend = [''float_2903953'', ''float_4903838'', ''float_7901125'']"
    "depth SAMPLE_PROFILE = [0, 200, 500, 1000]"
    "values_of SAMPLE_PROFILE = [20.2, 15.1, 8.3, 4.2]"
    by (simp_all add: SAMPLE_FLOATS_def SAMPLE_FLOATS_frontend_def SAMPLE_PROFILE_def)
  show ?thesis using floats profile vals by blast
qed

theorem sample_fleet_and_profile_witness:
  "fetch_fails (NetworkFailure :: ArgoFloat list fetch_result) \<and>
   getArgoFloats NetworkFailure = Inr \<lparr>floats_data = SAMPLE_FLOATS, floats_source = Sample\<rparr> \<and>
   fetch_fails (HttpResponse 500 None :: ArgoProfile fetch_result) \<and>
   getFloatProfile (HttpResponse 500 None) = Inr SAMPLE_PROFILE"
  using sample_fleet_and_profile [of NetworkFailure "HttpResponse 500 None"]
  by (simp add: response_ok_def)

theorem frontend_catalog_fallback_is_three_floats:
  "fetch_fails (NetworkFailure :: ArgoFloat list fetch_result) \<and>
   getArgoFloats_frontend NetworkFailure = Inr SAMPLE_FLOATS_frontend \<and>
   length SAMPLE_FLOATS_frontend = 3 \<and>
   map af_id SAMPLE_FLOATS_frontend = [''float_2903953'', ''float_4903838'', ''float_7901125'']"
  by (simp add: getArgoFloats_frontend_def try_catch_def SAMPLE_FLOATS_frontend_def)

section \<open>Properties of the filter pipeline\<close>


lemma filteredData_unmatched_id:
  assumes "data < length h" "floatId filters = Some fid" "fid \<noteq> []"
    and "\<forall>row \<in> set (h ! data). String_of b (get row ''float_id'') \<noteq> fid"
  shows "fst (filteredData b h data Expert filters) ! snd (filteredData b h data Expert filters) = []"
proof -
  have "filter (\<lambda>row. String_of b (get row ''float_id'') = fid) (h ! data) = []"
    using assms(4) by (simp add: filter_empty_conv)
  then show ?thesis
    using assms(1-3)
    by (auto simp: filteredData_def spread_def alloc_def nth_append Let_def
        split: option.splits prod.splits)
qed







section \<open>Properties of the data synopsis\<close>

lemma Array_from_Set_aux:
  "distinct acc \<Longrightarrow>
   distinct (foldl (\<lambda>seen x. if x \<in> set seen then seen else seen @ [x]) acc xs) \<and>
   set (foldl (\<lambda>seen x. if x \<in> set seen then seen else seen @ [x]) acc xs) = set acc \<union> set xs"
  by (induction xs arbitrary: acc) auto

lemma length_Array_from_Set: "length (Array_from_Set xs) = card (set xs)"
proof -
  let ?ys = "foldl (\<lambda>seen x. if x \<in> set seen then seen else seen @ [x]) [] xs"
  have "distinct ?ys" "set ?ys = set xs" using Array_from_Set_aux[of "[]" xs] by simp_all
  then have "card (set xs) = length ?ys" using distinct_card[of ?ys] by simp
  then show ?thesis by (simp add: Array_from_Set_def)
qed

lemma set_somes: "set (somes ys) = {x. Some x \<in> set ys}"
  by (induction ys rule: somes.induct) auto

lemma float_ids_count:
  "length (float_ids b data) =
     card {i. i \<noteq> [] \<and> (\<exists>row \<in> set data. normalize_float_id b row = Some i)}"
proof -
  have "set (somes (filter (\<lambda>v. v \<noteq> None \<and> v \<noteq> Some []) (map (normalize_float_id b) data))) =
        {i. i \<noteq> [] \<and> (\<exists>row \<in> set data. normalize_float_id b row = Some i)}"
    by (auto simp: set_somes image_iff) (metis)
  then show ?thesis by (simp add: float_ids_def length_Array_from_Set)
qed

lemma signature_form:
  assumes "data \<noteq> []"
  shows "map_option signature (createDataSynopsis b data) =
     Some (show_nat (length data) @ ''-'' @ join ''|'' (Object_keys (hd data)) @ ''-'' @
           show_nat (length (float_ids b data)))"
  using assms by (simp add: createDataSynopsis_def Let_def hd_conv_nth split: prod.splits)

text \<open>
  Claim C7, as the code has it. The signature of a non-empty result set is made of the row
  count, the column list of its first row and the number of distinct float identifiers.
  Two result sets with the same rows in a different order have the same signature
  whenever their first rows list the same columns in the same order, as they do under a
  uniform schema.
\<close>

theorem synopsis_signature:
  assumes "data \<noteq> []" "mset data' = mset data"
    "Object_keys (hd data') = Object_keys (hd data)"
  shows "map_option signature (createDataSynopsis b data) =
           Some (show_nat (length data) @ ''-'' @ join ''|'' (Object_keys (hd data)) @ ''-'' @
                 show_nat (length (float_ids b data))) \<and>
         map_option signature (createDataSynopsis b data') =
           map_option signature (createDataSynopsis b data)"
proof -
  have ne: "data' \<noteq> []" using assms(1,2) by auto
  have len: "length data' = length data" using assms(2) by (metis size_mset)
  have st: "set data' = set data" using assms(2) by (metis set_mset_mset)
  show ?thesis using assms(1,3) ne len st
    by (simp add: signature_form float_ids_count)
qed

theorem synopsis_signature_witness:
  "[float_row_7, float_row_8] \<noteq> [] \<and>
   mset [float_row_8, float_row_7] = mset [float_row_7, float_row_8] \<and>
   Object_keys (hd [float_row_8, float_row_7]) = Object_keys (hd [float_row_7, float_row_8]) \<and>
   map_option signature (createDataSynopsis plain_builtins [float_row_7, float_row_8]) =
     Some ''2-float_id|temperature-2'' \<and>
   map_option signature (createDataSynopsis plain_builtins [float_row_8, float_row_7]) =
     Some ''2-float_id|temperature-2''"
proof -
  have h: "[float_row_7, float_row_8] \<noteq> []"
    "mset [float_row_8, float_row_7] = mset [float_row_7, float_row_8]"
    "Object_keys (hd [float_row_8, float_row_7]) = Object_keys (hd [float_row_7, float_row_8])"
    by (simp_all add: Object_keys_def float_row_7_def float_row_8_def)
  have v: "show_nat (length [float_row_7, float_row_8]) @ ''-'' @
        join ''|'' (Object_keys (hd [float_row_7, float_row_8])) @ ''-'' @
        show_nat (length (float_ids plain_builtins [float_row_7, float_row_8])) =
        ''2-float_id|temperature-2''"
    by (simp add: float_ids_def normalize_float_id_def get_def coalesce_def Array_from_Set_def
        Object_keys_def show_nat.simps digit_char_def trim_def isSpace_def plain_builtins_def
        float_row_7_def float_row_8_def)
  show ?thesis
    using synopsis_signature [OF h, of plain_builtins] h v by simp
qed

theorem signature_depends_on_row_order:
  "mset [row_b, row_a] = mset [row_a, row_b] \<and>
   map_option signature (createDataSynopsis plain_builtins [row_a, row_b]) = Some ''2-a-0'' \<and>
   map_option signature (createDataSynopsis plain_builtins [row_b, row_a]) = Some ''2-b-0''"
  by (simp add: signature_form float_ids_def normalize_float_id_def get_def coalesce_def
      Array_from_Set_def Object_keys_def show_nat.simps digit_char_def row_a_def row_b_def)

section \<open>Properties of the welcome load\<close>

lemma valid_shape:
  "structurally_valid r \<Longrightarrow> \<exists>rows sql. result_data r = Rows rows \<and> sql_query r = Some sql"
  by (auto simp: structurally_valid_def truthy_string_def split: result_data.splits)

lemma wa_unfold:
  "welcome_attempts env 0 s =
    (if attempt_ok env 0 then
       (welcome_success env (askAI (network env 0)) (s\<lparr>askAI_calls := askAI_calls s + 1\<rparr>), True)
     else if attempt_ok env 1 then
       (welcome_success env (askAI (network env 1))
          (s\<lparr>timers := timers s @ [400], askAI_calls := askAI_calls s + 2\<rparr>), True)
     else if attempt_ok env 2 then
       (welcome_success env (askAI (network env 2))
          (s\<lparr>timers := timers s @ [400, 1600], askAI_calls := askAI_calls s + 3\<rparr>), True)
     else (s\<lparr>timers := timers s @ [400, 1600], askAI_calls := askAI_calls s + 3\<rparr>, False))"
proof -
  have shape: "\<And>k. attempt_ok env k \<Longrightarrow>
     \<exists>rows sql. result_data (askAI (network env k)) = Rows rows \<and>
                sql_query (askAI (network env k)) = Some sql"
    unfolding attempt_ok_def by (rule valid_shape)
  show ?thesis
    using shape[of 0] shape[of "Suc 0"] shape[of "Suc (Suc 0)"]
    by (auto simp add: welcome_attempts.simps[of _ 0] welcome_attempts.simps[of _ "Suc 0"]
      welcome_attempts.simps[of _ "Suc (Suc 0)"] welcome_attempts.simps[of _ "Suc (Suc (Suc 0))"]
      maxAttempts_def Let_def numeral_2_eq_2 numeral_3_eq_3 attempt_ok_def welcome_success_def)
qed



lemma updateBackendStatus_fields:
  "backendStatus (updateBackendStatus st d s) = st"
  "appData (updateBackendStatus st d s) = appData s"
  "dataSynopsis (updateBackendStatus st d s) = dataSynopsis s"
  "app_isLoading (updateBackendStatus st d s) = app_isLoading s"
  "welcome_cache (updateBackendStatus st d s) = welcome_cache s"
  "askAI_calls (updateBackendStatus st d s) = askAI_calls s"
  "timers (updateBackendStatus st d s) = timers s"
  by (simp_all add: updateBackendStatus_def)

lemma persistWelcomeData_fields:
  "backendStatus (persistWelcomeData env p s) = backendStatus s"
  "appData (persistWelcomeData env p s) = appData s"
  "dataSynopsis (persistWelcomeData env p s) = dataSynopsis s"
  "askAI_calls (persistWelcomeData env p s) = askAI_calls s"
  "timers (persistWelcomeData env p s) = timers s"
  by (simp_all add: persistWelcomeData_def)

lemma success_proj:
  assumes "structurally_valid r"
  shows "askAI_calls (welcome_success env r s) = askAI_calls s"
    "timers (welcome_success env r s) = timers s"
    "backendStatus (welcome_success env r s) = Operational"
    "\<exists>rows sql. result_data r = Rows rows \<and> sql_query r = Some sql \<and> appData (welcome_success env r s) = \<lparr>ad_data = rows, ad_sqlQuery = sql\<rparr>"
  using valid_shape[OF assms]
  by (auto simp: welcome_success_def updateBackendStatus_fields persistWelcomeData_fields)

lemma backoff_delays:
  "map (\<lambda>attempt. 400 * attempt ^ 2) [1..<1] = ([] :: nat list)"
  "map (\<lambda>attempt. 400 * attempt ^ 2) [1..<2] = [400 :: nat]"
  "map (\<lambda>attempt. 400 * attempt ^ 2) [1..<3] = [400, 1600 :: nat]"
  "map (\<lambda>attempt. 400 * attempt ^ 2) [Suc 0..<2] = [400 :: nat]"
  "map (\<lambda>attempt. 400 * attempt ^ 2) [Suc 0..<3] = [400, 1600 :: nat]"
  by (simp_all add: upt_rec numeral_2_eq_2 numeral_3_eq_3)

lemma fetch_calls:
  "askAI_calls (fetchInitialData env s) = askAI_calls s + attempts_made env"
  by (auto simp: fetchInitialData_def wa_unfold Let_def success_proj attempt_ok_def attempts_made_def
      updateBackendStatus_fields split: option.splits)

lemma fetch_timers:
  "timers (fetchInitialData env s) =
     timers s @ map (\<lambda>attempt. 400 * attempt ^ 2) [1..<attempts_made env]"
proof -
  have "timers (fetchInitialData env s) = timers s @
     (if attempt_ok env 0 then [] else if attempt_ok env 1 then [400] else [400, 1600])"
    by (auto simp: fetchInitialData_def wa_unfold Let_def success_proj attempt_ok_def
      updateBackendStatus_fields split: option.splits)
  then show ?thesis
    by (cases "attempt_ok env 0"; cases "attempt_ok env 1")
       (simp_all only: attempts_made_def backoff_delays if_True if_False)
qed

lemma fetch_success:
  assumes "attempt_ok env (attempts_made env - 1)"
  shows "backendStatus (fetchInitialData env s) = Operational \<and>
     (\<exists>rows sql. result_data (askAI (network env (attempts_made env - 1))) = Rows rows \<and>
        sql_query (askAI (network env (attempts_made env - 1))) = Some sql \<and>
        appData (fetchInitialData env s) = \<lparr>ad_data = rows, ad_sqlQuery = sql\<rparr>)"
proof -
  consider (a) "attempt_ok env 0" | (b) "\<not> attempt_ok env 0" "attempt_ok env 1"
    | (c) "\<not> attempt_ok env 0" "\<not> attempt_ok env 1" "attempt_ok env 2"
    using assms by (auto simp: attempts_made_def split: if_splits)
  then show ?thesis
  proof cases
    case a
    then show ?thesis
      using success_proj(3,4)[of "askAI (network env 0)" env]
      by (simp add: fetchInitialData_def wa_unfold Let_def attempts_made_def attempt_ok_def)
  next
    case b
    then show ?thesis
      using success_proj(3,4)[of "askAI (network env 1)" env]
      by (simp add: fetchInitialData_def wa_unfold Let_def attempts_made_def attempt_ok_def)
  next
    case c
    then show ?thesis
      using success_proj(3,4)[of "askAI (network env 2)" env]
      by (simp add: fetchInitialData_def wa_unfold Let_def attempts_made_def attempt_ok_def)
  qed
qed

lemma loadCached_stored:
  "loadCachedWelcomeData env s = stored_snapshot env (welcome_cache s)"
  by (auto simp: loadCachedWelcomeData_def stored_snapshot_def
      split: option.splits json.splits)

lemma fetch_all_fail:
  assumes "\<not> attempt_ok env 0" "\<not> attempt_ok env 1" "\<not> attempt_ok env 2"
  shows "app_isLoading (fetchInitialData env s) = False \<and>
     (case stored_snapshot env (welcome_cache s) of
        Some snapshot \<Rightarrow>
          appData (fetchInitialData env s) = snapshot \<and>
          dataSynopsis (fetchInitialData env s) =
            createDataSynopsis (env_builtins env) (ad_data snapshot) \<and>
          backendStatus (fetchInitialData env s) = Degraded
      | None \<Rightarrow>
          appData (fetchInitialData env s) = \<lparr>ad_data = [], ad_sqlQuery = []\<rparr> \<and>
          dataSynopsis (fetchInitialData env s) = None \<and>
          backendStatus (fetchInitialData env s) = Offline)"
  using assms
  by (auto simp: fetchInitialData_def wa_unfold Let_def loadCached_stored
      updateBackendStatus_fields split: option.splits)

lemma idle_app_fields:
  "askAI_calls (idle_app cache) = 0" "timers (idle_app cache) = []"
  "welcome_cache (idle_app cache) = cache"
  by (simp_all add: idle_app_def)

text \<open>
  Claim C2, as the code has it. A welcome load makes between one and three attempts. It
  stops at the first attempt whose response has no error text (null or empty), an array
  result and SQL text that is neither null nor empty; every earlier attempt failed that
  test. After a failed first attempt it waits 400 ms and after a failed second one
  1600 ms, that is 400 ms times the square of the 1-indexed attempt; nothing is waited
  after the third attempt. A response accepted in an attempt leaves the status operational
  and its rows and SQL text as the application data. Two failures followed by a success
  give exactly three attempts with the delays 400 ms and 1600 ms.
\<close>

theorem welcome_load_retry:
  "askAI_calls (fetchInitialData env s) = askAI_calls s + attempts_made env \<and>
   1 \<le> attempts_made env \<and> attempts_made env \<le> 3 \<and>
   timers (fetchInitialData env s) =
     timers s @ map (\<lambda>attempt. 400 * attempt ^ 2) [1..<attempts_made env] \<and>
   list_all (\<lambda>k. \<not> attempt_ok env k) [0..<attempts_made env - 1] \<and>
   (attempt_ok env (attempts_made env - 1) \<or> attempts_made env = 3) \<and>
   (attempt_ok env (attempts_made env - 1) \<longrightarrow>
      backendStatus (fetchInitialData env s) = Operational \<and>
      (\<exists>rows sql. result_data (askAI (network env (attempts_made env - 1))) = Rows rows \<and>
         sql_query (askAI (network env (attempts_made env - 1))) = Some sql \<and>
         appData (fetchInitialData env s) = \<lparr>ad_data = rows, ad_sqlQuery = sql\<rparr>)) \<and>
   (\<not> attempt_ok env 0 \<and> \<not> attempt_ok env 1 \<and> attempt_ok env 2 \<longrightarrow>
      askAI_calls (fetchInitialData env s) = askAI_calls s + 3 \<and>
      timers (fetchInitialData env s) = timers s @ [400, 1600])"
proof -
  have bounds: "1 \<le> attempts_made env" "attempts_made env \<le> 3"
    by (simp_all add: attempts_made_def)
  have earlier: "list_all (\<lambda>k. \<not> attempt_ok env k) [0..<attempts_made env - 1]"
    by (simp add: attempts_made_def upt_rec)
  have last: "attempt_ok env (attempts_made env - 1) \<or> attempts_made env = 3"
    by (simp add: attempts_made_def)
  have scenario: "\<not> attempt_ok env 0 \<and> \<not> attempt_ok env 1 \<and> attempt_ok env 2 \<longrightarrow>
      askAI_calls (fetchInitialData env s) = askAI_calls s + 3 \<and>
      timers (fetchInitialData env s) = timers s @ [400, 1600]"
    by (simp add: fetch_calls fetch_timers attempts_made_def backoff_delays)
  show ?thesis
    using bounds earlier last scenario fetch_success [of env s]
    by (simp only: fetch_calls fetch_timers) blast
qed

theorem welcome_load_retry_witness:
  "\<not> attempt_ok (example_env flaky_network) 0 \<and> \<not> attempt_ok (example_env flaky_network) 1 \<and>
   attempt_ok (example_env flaky_network) 2 \<and>
   attempt_ok (example_env flaky_network) (attempts_made (example_env flaky_network) - 1) \<and>
   askAI_calls (fetchInitialData (example_env flaky_network) (idle_app None)) = 3 \<and>
   timers (fetchInitialData (example_env flaky_network) (idle_app None)) = [400, 1600] \<and>
   backendStatus (fetchInitialData (example_env flaky_network) (idle_app None)) = Operational"
proof -
  have ok: "\<not> attempt_ok (example_env flaky_network) 0"
    "\<not> attempt_ok (example_env flaky_network) 1" "attempt_ok (example_env flaky_network) 2"
    by (simp_all add: attempt_ok_def example_env_def askAI_def structurally_valid_def
        truthy_string_def good_response_def response_ok_def)
  then have n: "attempts_made (example_env flaky_network) = 3"
    by (simp add: attempts_made_def)
  show ?thesis
    using welcome_load_retry [of "example_env flaky_network" "idle_app None"] ok n
    by (simp add: idle_app_fields backoff_delays)
qed

theorem empty_sql_text_is_retried:
  "spec_structurally_valid (askAI (network (example_env empty_sql_network) 0)) \<and>
   askAI_calls (fetchInitialData (example_env empty_sql_network) (idle_app None)) = 3 \<and>
   timers (fetchInitialData (example_env empty_sql_network) (idle_app None)) = [400, 1600] \<and>
   backendStatus (fetchInitialData (example_env empty_sql_network) (idle_app None)) = Offline"
proof -
  have bad: "\<And>k. \<not> attempt_ok (example_env empty_sql_network) k"
    by (simp add: attempt_ok_def example_env_def askAI_def structurally_valid_def
        truthy_string_def empty_sql_response_def response_ok_def)
  have n: "attempts_made (example_env empty_sql_network) = 3"
    by (simp add: attempts_made_def bad)
  have sv: "spec_structurally_valid (askAI (network (example_env empty_sql_network) 0))"
    by (simp add: spec_structurally_valid_def example_env_def askAI_def empty_sql_response_def
        response_ok_def)
  have cache: "stored_snapshot (example_env empty_sql_network) (welcome_cache (idle_app None)) = None"
    by (simp add: stored_snapshot_def idle_app_fields)
  show ?thesis
    using sv fetch_all_fail [OF bad bad bad, of "idle_app None"] cache
    by (simp add: fetch_calls fetch_timers n backoff_delays idle_app_fields)
qed

text \<open>
  Claim C3. When all three attempts of the welcome load fail, the application reads the
  entry under the welcome cache key of the browser store. If the entry is the JSON text of
  a snapshot, an object whose \<open>data\<close> is an array and whose \<open>sqlQuery\<close> is a string, that
  snapshot becomes the application data and the status is degraded; this restores what
  an earlier successful load persisted, provided \<open>JSON.parse\<close> reads back the text that
  \<open>JSON.stringify\<close> wrote. When there is no such snapshot (nothing stored, an empty text,
  a text that does not parse, or a value of another shape), and only then, the application
  shows the empty data set with the status offline. The loading flag is cleared in both
  cases.
\<close>

theorem welcome_load_fallback:
  assumes "\<not> attempt_ok env 0" "\<not> attempt_ok env 1" "\<not> attempt_ok env 2"
  shows "app_isLoading (fetchInitialData env s) = False \<and>
     (case stored_snapshot env (welcome_cache s) of
        Some snapshot \<Rightarrow>
          appData (fetchInitialData env s) = snapshot \<and>
          dataSynopsis (fetchInitialData env s) =
            createDataSynopsis (env_builtins env) (ad_data snapshot) \<and>
          backendStatus (fetchInitialData env s) = Degraded
      | None \<Rightarrow>
          appData (fetchInitialData env s) = \<lparr>ad_data = [], ad_sqlQuery = []\<rparr> \<and>
          dataSynopsis (fetchInitialData env s) = None \<and>
          backendStatus (fetchInitialData env s) = Offline) \<and>
     (backendStatus (fetchInitialData env s) = Offline) =
        (stored_snapshot env (welcome_cache s) = None) \<and>
     (welcome_cache s = Some raw \<and> raw \<noteq> [] \<and>
      JSON_parse env raw = Some (JsonObject properties) \<and>
      map_of properties ''data'' = Some (JsonArray rows) \<and>
      map_of properties ''sqlQuery'' = Some (JsonString sql) \<longrightarrow>
        appData (fetchInitialData env s) = \<lparr>ad_data = rows, ad_sqlQuery = sql\<rparr> \<and>
        backendStatus (fetchInitialData env s) = Degraded) \<and>
     (welcome_cache s = None \<or> welcome_cache s = Some [] \<or>
      (welcome_cache s = Some raw \<and> JSON_parse env raw = None) \<longrightarrow>
        appData (fetchInitialData env s) = \<lparr>ad_data = [], ad_sqlQuery = []\<rparr> \<and>
        backendStatus (fetchInitialData env s) = Offline) \<and>
     (\<not> setItem_throws env \<and> JSON_stringify env payload \<noteq> [] \<and>
      JSON_parse env (JSON_stringify env payload) = Some (json_of_AppData payload) \<longrightarrow>
        appData (fetchInitialData env (persistWelcomeData env payload s)) = payload \<and>
        backendStatus (fetchInitialData env (persistWelcomeData env payload s)) = Degraded)"
proof -
  have a: "app_isLoading (fetchInitialData env s) = False \<and>
     (case stored_snapshot env (welcome_cache s) of
        Some snapshot \<Rightarrow>
          appData (fetchInitialData env s) = snapshot \<and>
          dataSynopsis (fetchInitialData env s) =
            createDataSynopsis (env_builtins env) (ad_data snapshot) \<and>
          backendStatus (fetchInitialData env s) = Degraded
      | None \<Rightarrow>
          appData (fetchInitialData env s) = \<lparr>ad_data = [], ad_sqlQuery = []\<rparr> \<and>
          dataSynopsis (fetchInitialData env s) = None \<and>
          backendStatus (fetchInitialData env s) = Offline)"
    using assms by (rule fetch_all_fail)
  then have b: "(backendStatus (fetchInitialData env s) = Offline) =
                (stored_snapshot env (welcome_cache s) = None)"
    by (cases "stored_snapshot env (welcome_cache s)") auto
  have c: "welcome_cache s = Some raw \<and> raw \<noteq> [] \<and>
      JSON_parse env raw = Some (JsonObject properties) \<and>
      map_of properties ''data'' = Some (JsonArray rows) \<and>
      map_of properties ''sqlQuery'' = Some (JsonString sql) \<longrightarrow>
        appData (fetchInitialData env s) = \<lparr>ad_data = rows, ad_sqlQuery = sql\<rparr> \<and>
        backendStatus (fetchInitialData env s) = Degraded"
  proof
    assume h: "welcome_cache s = Some raw \<and> raw \<noteq> [] \<and>
      JSON_parse env raw = Some (JsonObject properties) \<and>
      map_of properties ''data'' = Some (JsonArray rows) \<and>
      map_of properties ''sqlQuery'' = Some (JsonString sql)"
    then have "stored_snapshot env (welcome_cache s) = Some \<lparr>ad_data = rows, ad_sqlQuery = sql\<rparr>"
      by (simp add: stored_snapshot_def)
    with a show "appData (fetchInitialData env s) = \<lparr>ad_data = rows, ad_sqlQuery = sql\<rparr> \<and>
        backendStatus (fetchInitialData env s) = Degraded"
      by simp
  qed
  have d: "welcome_cache s = None \<or> welcome_cache s = Some [] \<or>
      (welcome_cache s = Some raw \<and> JSON_parse env raw = None) \<longrightarrow>
        appData (fetchInitialData env s) = \<lparr>ad_data = [], ad_sqlQuery = []\<rparr> \<and>
        backendStatus (fetchInitialData env s) = Offline"
  proof
    assume "welcome_cache s = None \<or> welcome_cache s = Some [] \<or>
      (welcome_cache s = Some raw \<and> JSON_parse env raw = None)"
    then have "stored_snapshot env (welcome_cache s) = None"
      by (auto simp: stored_snapshot_def)
    with a show "appData (fetchInitialData env s) = \<lparr>ad_data = [], ad_sqlQuery = []\<rparr> \<and>
        backendStatus (fetchInitialData env s) = Offline"
      by simp
  qed
  have e: "\<not> setItem_throws env \<and> JSON_stringify env payload \<noteq> [] \<and>
      JSON_parse env (JSON_stringify env payload) = Some (json_of_AppData payload) \<longrightarrow>
        appData (fetchInitialData env (persistWelcomeData env payload s)) = payload \<and>
        backendStatus (fetchInitialData env (persistWelcomeData env payload s)) = Degraded"
  proof
    assume h: "\<not> setItem_throws env \<and> JSON_stringify env payload \<noteq> [] \<and>
      JSON_parse env (JSON_stringify env payload) = Some (json_of_AppData payload)"
    then have "stored_snapshot env (welcome_cache (persistWelcomeData env payload s)) =
               Some payload"
      by (simp add: stored_snapshot_def persistWelcomeData_def json_of_AppData_def)
    then show "appData (fetchInitialData env (persistWelcomeData env payload s)) = payload \<and>
        backendStatus (fetchInitialData env (persistWelcomeData env payload s)) = Degraded"
      using fetch_all_fail [OF assms, of "persistWelcomeData env payload s"] by simp
  qed
  show ?thesis using a b c d e by blast
qed

theorem welcome_load_fallback_witness:
  "\<not> attempt_ok (example_env down_network) 0 \<and> \<not> attempt_ok (example_env down_network) 1 \<and>
   \<not> attempt_ok (example_env down_network) 2 \<and>
   welcome_cache (idle_app (Some snapshot_text)) = Some snapshot_text \<and> snapshot_text \<noteq> [] \<and>
   JSON_parse (example_env down_network) snapshot_text =
     Some (JsonObject [(''data'', JsonArray [float_row_7]),
                       (''sqlQuery'', JsonString ''SELECT 1'')]) \<and>
   appData (fetchInitialData (example_env down_network) (idle_app (Some snapshot_text))) =
     \<lparr>ad_data = [float_row_7], ad_sqlQuery = ''SELECT 1''\<rparr> \<and>
   backendStatus (fetchInitialData (example_env down_network) (idle_app (Some snapshot_text))) =
     Degraded \<and>
   welcome_cache (idle_app None) = None \<and>
   appData (fetchInitialData (example_env down_network) (idle_app None)) =
     \<lparr>ad_data = [], ad_sqlQuery = []\<rparr> \<and>
   backendStatus (fetchInitialData (example_env down_network) (idle_app None)) = Offline \<and>
   welcome_cache (idle_app (Some ''not json'')) = Some ''not json'' \<and>
   JSON_parse (example_env down_network) ''not json'' = None \<and>
   backendStatus (fetchInitialData (example_env down_network) (idle_app (Some ''not json''))) =
     Offline \<and>
   \<not> setItem_throws (example_env down_network) \<and>
   JSON_stringify (example_env down_network) example_payload = snapshot_text \<and>
   appData (fetchInitialData (example_env down_network)
              (persistWelcomeData (example_env down_network) example_payload (idle_app None))) =
     example_payload"
proof -
  have bad: "\<And>k. \<not> attempt_ok (example_env down_network) k"
    by (simp add: attempt_ok_def example_env_def askAI_def structurally_valid_def
        truthy_string_def)
  have tx: "snapshot_text \<noteq> []" "snapshot_text \<noteq> ''not json''"
    by (simp_all add: snapshot_text_def dq_def)
  have codec: "JSON_parse (example_env down_network) snapshot_text =
      Some (JsonObject [(''data'', JsonArray [float_row_7]),
                        (''sqlQuery'', JsonString ''SELECT 1'')])"
    "JSON_parse (example_env down_network) ''not json'' = None"
    "\<not> setItem_throws (example_env down_network)"
    "JSON_stringify (example_env down_network) example_payload = snapshot_text"
    using tx
    by (simp_all add: example_env_def example_parse_def example_stringify_def
        json_of_AppData_def example_payload_def)
  have store: "welcome_cache (idle_app (Some snapshot_text)) = Some snapshot_text"
    "welcome_cache (idle_app None) = None"
    "welcome_cache (idle_app (Some ''not json'')) = Some ''not json''"
    by (simp_all add: idle_app_fields)
  have p: "json_of_AppData example_payload =
      JsonObject [(''data'', JsonArray [float_row_7]), (''sqlQuery'', JsonString ''SELECT 1'')]"
    by (simp add: json_of_AppData_def example_payload_def)
  show ?thesis
    using welcome_load_fallback [OF bad bad bad, where s = "idle_app (Some snapshot_text)"
        and raw = snapshot_text
        and properties = "[(''data'', JsonArray [float_row_7]),
                           (''sqlQuery'', JsonString ''SELECT 1'')]"
        and rows = "[float_row_7]" and sql = "''SELECT 1''" and payload = example_payload]
      welcome_load_fallback [OF bad bad bad, where s = "idle_app None" and raw = "''not json''"
        and payload = example_payload]
      welcome_load_fallback [OF bad bad bad, where s = "idle_app (Some ''not json'')"
        and raw = "''not json''" and payload = example_payload]
      bad tx codec store p
    by (simp add: example_payload_def)
qed

section \<open>Properties of the conversational interface\<close>

lemma settle_stale: "sessionId s \<noteq> captured \<Longrightarrow> sendPrompt_settle captured outcome now s = s"
  by (simp add: sendPrompt_settle_def split: sum.splits)

lemma begin_captures:
  "sendPrompt_begin prompt preserveInput now s = (s1, Some captured) \<Longrightarrow>
     captured = sessionId s \<and> sessionId s1 = sessionId s"
  by (auto simp: sendPrompt_begin_def Let_def call_parent_def split: if_splits)

lemma sessionId_interpret: "sessionId (snd (interpret_response r s)) = sessionId s"
  by (auto simp: interpret_response_def call_parent_def split: result_data.splits)

lemma sessionId_settle: "sessionId (sendPrompt_settle c outcome now s) = sessionId s"
  by (auto simp: sendPrompt_settle_def Let_def call_parent_def sessionId_interpret
      split: sum.splits prod.splits) (metis sessionId_interpret snd_conv)+

lemma sessionId_begin: "sessionId (fst (sendPrompt_begin p keep now s)) = sessionId s"
  by (auto simp: sendPrompt_begin_def Let_def call_parent_def)

lemma sessionId_reset: "sessionId (handleResetConversation now s) = sessionId s + 1"
  by (simp add: handleResetConversation_def call_parent_def)

lemma sessionId_step: "sessionId s \<le> sessionId (chat_step s e)"
  by (cases e) (simp_all add: sessionId_settle sessionId_begin sessionId_reset)

lemma sessionId_run: "sessionId s \<le> sessionId (chat_run s events)"
  unfolding chat_run_def
proof (induction events arbitrary: s)
  case Nil
  then show ?case by simp
next
  case (Cons e events)
  have "sessionId s \<le> sessionId (chat_step s e)" by (rule sessionId_step)
  also have "\<dots> \<le> sessionId (foldl chat_step (chat_step s e) events)" by (rule Cons.IH)
  finally show ?case by simp
qed

text \<open>
  Claim C4. A request is issued with the session counter captured at that moment. If the
  conversation is reset before the request settles, whatever else happens before or
  after the reset, then settling the request, with a response or with a rejection, leaves
  the state of the chat as it is: no message is appended, no call reaches the parent
  (no data update, no status change) and the loading flag keeps its value.
\<close>

theorem stale_response_discarded:
  assumes "sendPrompt_begin prompt preserveInput t0 s0 = (s1, Some captured)"
  shows "sendPrompt_settle captured outcome t2
           (chat_run (handleResetConversation t1 (chat_run s1 before)) after) =
         chat_run (handleResetConversation t1 (chat_run s1 before)) after"
proof -
  let ?s2 = "chat_run (handleResetConversation t1 (chat_run s1 before)) after"
  have "captured = sessionId s1" using begin_captures[OF assms] by simp
  also have "\<dots> \<le> sessionId (chat_run s1 before)" by (rule sessionId_run)
  also have "\<dots> < sessionId (handleResetConversation t1 (chat_run s1 before))"
    by (simp add: sessionId_reset)
  also have "\<dots> \<le> sessionId ?s2" by (rule sessionId_run)
  finally have "sessionId ?s2 \<noteq> captured" by simp
  then show ?thesis by (rule settle_stale)
qed

theorem stale_response_discarded_witness:
  "sendPrompt_begin ''Where is float 5905612?'' False 10 fresh_chat =
     (fst (sendPrompt_begin ''Where is float 5905612?'' False 10 fresh_chat), Some 0) \<and>
   sendPrompt_settle 0 (Inr narrative_response) 40
     (chat_run (handleResetConversation 20
        (chat_run (fst (sendPrompt_begin ''Where is float 5905612?'' False 10 fresh_chat)) []))
        [Send ''Show salinity'' False 30]) =
   chat_run (handleResetConversation 20
        (chat_run (fst (sendPrompt_begin ''Where is float 5905612?'' False 10 fresh_chat)) []))
        [Send ''Show salinity'' False 30]"
proof -
  have b: "sendPrompt_begin ''Where is float 5905612?'' False 10 fresh_chat =
     (fst (sendPrompt_begin ''Where is float 5905612?'' False 10 fresh_chat), Some 0)"
    by (simp add: sendPrompt_begin_def fresh_chat_def Let_def trim_def isSpace_def)
  show ?thesis
    using stale_response_discarded [OF b, where outcome = "Inr narrative_response"
        and ?t2.0 = 40 and ?t1.0 = 20 and before = "[]"
        and after = "[Send ''Show salinity'' False 30]"] b
    by simp
qed

text \<open>
  Claim C10. When the \<open>messages\<close> field of a response is a non-empty array none of whose
  entries has the role \<open>assistant\<close>, \<open>normalizeAssistantMessages\<close> returns the empty
  list, whatever the fallback text; settling the request with that response appends no
  message to the chat.
\<close>

theorem no_assistant_entry_no_message:
  assumes "messages payload = Some entries" "entries \<noteq> []"
    "list_all (\<lambda>entry. case entry of None \<Rightarrow> True | Some m \<Rightarrow> bm_role m \<noteq> ''assistant'') entries"
  shows "normalizeAssistantMessages payload fallbackText seed = [] \<and>
         chat_messages (sendPrompt_settle (sessionId s) (Inr payload) now s) = chat_messages s"
proof -
  have "filter (\<lambda>entry. case entry of None \<Rightarrow> False | Some m \<Rightarrow> bm_role m = ''assistant'')
          entries = []"
    using assms(3) by (induction entries) (auto split: option.splits)
  then have n: "\<And>fb sd. normalizeAssistantMessages payload fb sd = []"
    using assms(1,2) by (simp add: normalizeAssistantMessages_def Let_def)
  have "chat_messages (snd (interpret_response payload s)) = chat_messages s"
    by (auto simp: interpret_response_def call_parent_def split: result_data.splits)
  then show ?thesis using n
    by (auto simp: sendPrompt_settle_def Let_def sessionId_interpret split: prod.splits)
qed

theorem no_assistant_entry_no_message_witness:
  "messages system_only_response =
     Some [Some \<lparr>bm_role = ''system'', bm_content = ContentString ''trace'', bm_type = None,
                 bm_title = None, bm_metadata = None\<rparr>, None] \<and>
   normalizeAssistantMessages system_only_response ''Floats drift with the currents.'' 7 = [] \<and>
   chat_messages (sendPrompt_settle (sessionId fresh_chat) (Inr system_only_response) 7 fresh_chat) =
     chat_messages fresh_chat"
proof -
  have m: "messages system_only_response =
     Some [Some \<lparr>bm_role = ''system'', bm_content = ContentString ''trace'', bm_type = None,
                 bm_title = None, bm_metadata = None\<rparr>, None]"
    by (simp add: system_only_response_def)
  show ?thesis
    using no_assistant_entry_no_message [OF m, where fallbackText = "''Floats drift with the currents.''"
        and seed = 7 and s = fresh_chat and now = 7] m
    by simp
qed

end
